theory Spec2Isabelle
  imports Main "HOL-Library.Multiset"
begin

section \<open>JavaScript primitives used by the panel\<close>

text \<open>
  Text that the code only stores and compares (identifiers, labels, payloads, the messages
  of errors) is a \<open>string\<close>, given by its bytes. Text that the code splits, folds, trims or
  indexes is a sequence of UTF-16 code units, as a JavaScript string is; \<open>units\<close> gives the
  code units of an ASCII literal.
\<close>

type_synonym ustring = "nat list"

definition units :: "string \<Rightarrow> ustring" where
  "units s = map of_char s"

text \<open>
  \<open>toLowerCase\<close> and \<open>toUpperCase\<close>. On text of ASCII units they exchange the letters
  \<open>A\<close>..\<open>Z\<close> and \<open>a\<close>..\<open>z\<close> and keep every other unit. For text with a unit beyond ASCII
  the result comes from the Unicode case tables of the engine, which are not part of the
  repository and are taken as a parameter: a function on whole strings, since a mapping
  may change the length and may depend on the neighbouring units.
\<close>

type_synonym case_table = "ustring \<Rightarrow> ustring"

definition is_ascii :: "ustring \<Rightarrow> bool" where
  "is_ascii s = list_all (\<lambda>u. u < 128) s"

definition ascii_lower :: "nat \<Rightarrow> nat" where
  "ascii_lower u = (if 65 \<le> u \<and> u \<le> 90 then u + 32 else u)"

definition ascii_upper :: "nat \<Rightarrow> nat" where
  "ascii_upper u = (if 97 \<le> u \<and> u \<le> 122 then u - 32 else u)"

definition toLowerCase :: "case_table \<Rightarrow> ustring \<Rightarrow> ustring" where
  "toLowerCase unicode_lower s = (if is_ascii s then map ascii_lower s else unicode_lower s)"

definition toUpperCase :: "case_table \<Rightarrow> ustring \<Rightarrow> ustring" where
  "toUpperCase unicode_upper s = (if is_ascii s then map ascii_upper s else unicode_upper s)"

text \<open>
  A table for the examples, which hold ASCII text only: there the tables are never
  consulted.
\<close>

definition no_table :: case_table where
  "no_table s = s"

text \<open>\<open>s.startsWith(p)\<close> and \<open>s.includes(q)\<close>, on units or on bytes.\<close>

definition startsWith :: "'a list \<Rightarrow> 'a list \<Rightarrow> bool" where
  "startsWith s p = (take (length p) s = p)"

fun includes_str :: "'a list \<Rightarrow> 'a list \<Rightarrow> bool" where
  "includes_str [] q = (q = [])"
| "includes_str (c # cs) q = (startsWith (c # cs) q \<or> includes_str cs q)"

text \<open>
  \<open>trim\<close> removes the white space and line terminators of ECMAScript at both ends: tab,
  line feed, vertical tab, form feed, carriage return, space, no-break space, the
  Unicode space separators, the line and paragraph separators and the byte order mark.
\<close>

definition is_trim_space :: "nat \<Rightarrow> bool" where
  "is_trim_space u =
     (u \<in> {0x09, 0x0A, 0x0B, 0x0C, 0x0D, 0x20, 0xA0, 0x1680, 0x2028, 0x2029, 0x202F, 0x205F,
            0x3000, 0xFEFF}
      \<or> (0x2000 \<le> u \<and> u \<le> 0x200A))"

definition trim :: "ustring \<Rightarrow> ustring" where
  "trim s = rev (dropWhile is_trim_space (rev (dropWhile is_trim_space s)))"

text \<open>
  A value of unknown shape coming from the backend (the \<open>interview\<close> field), with
  JavaScript's truthiness.
\<close>

datatype jsval = Undefined | Null | JBool bool | JNum int | JStr string | JObj

fun truthy :: "jsval \<Rightarrow> bool" where
  "truthy Undefined = False"
| "truthy Null = False"
| "truthy (JBool b) = b"
| "truthy (JNum n) = (n \<noteq> 0)"
| "truthy (JStr s) = (s \<noteq> [])"
| "truthy JObj = True"

datatype js_error = TypeError

section \<open>Data model\<close>

text \<open>A playable audio handle: the field is missing, \<open>null\<close>, or a blob URL (MIME type and bytes).\<close>

datatype audio_url = NoUrl | NullUrl | BlobUrl string string

record message =
  m_id :: int
  m_from :: string
  m_type :: int
  m_label :: string
  m_color :: string
  m_text :: string
  m_isAudio :: bool
  m_audioData :: "string option"
  m_audioUrl :: audio_url

text \<open>
  A conversation as \<open>mapConversationData\<close> builds it: all ten keys are set; \<open>name\<close>,
  \<open>initials\<close> and \<open>number\<close> are \<open>undefined\<close> (\<open>None\<close>) when the backend omits them.
\<close>

record conversation =
  c_id :: string
  c_name :: "ustring option"
  c_initials :: "ustring option"
  c_number :: "ustring option"
  c_src :: string
  c_tags :: "ustring list"
  c_unread :: int
  c_needsAttention :: bool
  c_interview :: jsval
  c_messages :: "message list"

record app_state =
  conversations :: "conversation list"
  activeConversationId :: "string option"
  isManualMode :: bool
  isLoading :: bool
  searchQuery :: ustring
  selectedFilter :: string

text \<open>The argument of \<open>setState\<close>: an object holding any subset of the state's keys.\<close>

record state_updates =
  u_conversations :: "conversation list option"
  u_activeConversationId :: "string option option"
  u_isManualMode :: "bool option"
  u_isLoading :: "bool option"
  u_searchQuery :: "ustring option"
  u_selectedFilter :: "string option"

definition no_updates :: state_updates where
  "no_updates = \<lparr>u_conversations = None, u_activeConversationId = None, u_isManualMode = None,
     u_isLoading = None, u_searchQuery = None, u_selectedFilter = None\<rparr>"

section \<open>StateManager\<close>

text \<open>
  A subscriber is a function with an identity (\<open>indexOf\<close> compares by identity). Called with
  the state it either returns or throws. In this first model it is an observer, as the
  one subscriber of the application is: it does not call back into the store. Callbacks
  that do are modelled further down.
\<close>

datatype cb_outcome = Returned | Threw

record subscriber =
  sub_ref :: nat
  sub_body :: "app_state \<Rightarrow> cb_outcome"

record store =
  state :: app_state
  subscribers :: "subscriber list"

text \<open>What an operation of the store does besides changing it, in order.\<close>

datatype store_effect = Called nat app_state | ConsoleError nat

definition initial_state :: app_state where
  "initial_state = \<lparr>conversations = [], activeConversationId = None, isManualMode = False,
     isLoading = False, searchQuery = [], selectedFilter = ''all''\<rparr>"

definition constructor :: store where
  "constructor = \<lparr>state = initial_state, subscribers = []\<rparr>"

definition subscribe :: "store \<Rightarrow> subscriber \<Rightarrow> store" where
  "subscribe st cb = st\<lparr>subscribers := subscribers st @ [cb]\<rparr>"

text \<open>The function \<open>subscribe\<close> returns: remove the first entry that is this callback.\<close>

fun remove_ref :: "nat \<Rightarrow> subscriber list \<Rightarrow> subscriber list" where
  "remove_ref r [] = []"
| "remove_ref r (cb # cbs) = (if sub_ref cb = r then cbs else cb # remove_ref r cbs)"

definition unsubscribe :: "store \<Rightarrow> subscriber \<Rightarrow> store" where
  "unsubscribe st cb = st\<lparr>subscribers := remove_ref (sub_ref cb) (subscribers st)\<rparr>"

text \<open>\<open>notify\<close>: every callback in a \<open>try\<close>; a throw is logged and the loop goes on.\<close>

fun notify_each :: "subscriber list \<Rightarrow> app_state \<Rightarrow> store_effect list" where
  "notify_each [] s = []"
| "notify_each (cb # cbs) s =
     (case sub_body cb s of
        Returned \<Rightarrow> Called (sub_ref cb) s # notify_each cbs s
      | Threw \<Rightarrow> Called (sub_ref cb) s # ConsoleError (sub_ref cb) # notify_each cbs s)"

definition notify :: "store \<Rightarrow> store_effect list" where
  "notify st = notify_each (subscribers st) (state st)"

text \<open>\<open>{ ...this.state, ...updates }\<close>: a key of \<open>updates\<close> wins, any other key is kept.\<close>

definition assign :: "'a \<Rightarrow> 'a option \<Rightarrow> 'a" where
  "assign old new = (case new of None \<Rightarrow> old | Some v \<Rightarrow> v)"

definition spread_state :: "app_state \<Rightarrow> state_updates \<Rightarrow> app_state" where
  "spread_state s u =
     \<lparr>conversations = assign (conversations s) (u_conversations u),
      activeConversationId = assign (activeConversationId s) (u_activeConversationId u),
      isManualMode = assign (isManualMode s) (u_isManualMode u),
      isLoading = assign (isLoading s) (u_isLoading u),
      searchQuery = assign (searchQuery s) (u_searchQuery u),
      selectedFilter = assign (selectedFilter s) (u_selectedFilter u)\<rparr>"

definition setState :: "store \<Rightarrow> state_updates \<Rightarrow> store \<times> store_effect list" where
  "setState st updates =
     (let st' = st\<lparr>state := spread_state (state st) updates\<rparr> in (st', notify st'))"

definition getState :: "store \<Rightarrow> app_state" where
  "getState st = state st"

definition setConversations :: "store \<Rightarrow> conversation list \<Rightarrow> store \<times> store_effect list" where
  "setConversations st cs = setState st (no_updates\<lparr>u_conversations := Some cs\<rparr>)"

text \<open>\<open>findIndex\<close>: the first position whose element satisfies the test, \<open>None\<close> for \<open>-1\<close>.\<close>

fun findIndex :: "('a \<Rightarrow> bool) \<Rightarrow> 'a list \<Rightarrow> nat option" where
  "findIndex p [] = None"
| "findIndex p (x # xs) =
     (if p x then Some 0 else (case findIndex p xs of None \<Rightarrow> None | Some i \<Rightarrow> Some (Suc i)))"

text \<open>
  \<open>{ ...conversations[index], ...conversation }\<close>: the payload carries all ten keys, so each
  key of the result is the payload's.
\<close>

definition spread_conversation :: "conversation \<Rightarrow> conversation \<Rightarrow> conversation" where
  "spread_conversation old payload =
     old\<lparr>c_id := c_id payload, c_name := c_name payload, c_initials := c_initials payload,
         c_number := c_number payload, c_src := c_src payload, c_tags := c_tags payload,
         c_unread := c_unread payload, c_needsAttention := c_needsAttention payload,
         c_interview := c_interview payload, c_messages := c_messages payload\<rparr>"

definition updateConversation :: "store \<Rightarrow> conversation \<Rightarrow> store \<times> store_effect list" where
  "updateConversation st conversation =
     (let cs = conversations (state st) in
      case findIndex (\<lambda>c. c_id c = c_id conversation) cs of
        Some index \<Rightarrow>
          setState st (no_updates\<lparr>u_conversations :=
            Some (cs[index := spread_conversation (cs ! index) conversation])\<rparr>)
      | None \<Rightarrow> setState st (no_updates\<lparr>u_conversations := Some (cs @ [conversation])\<rparr>))"



definition count_id :: "string \<Rightarrow> conversation list \<Rightarrow> nat" where
  "count_id i cs = length (filter (\<lambda>c. c_id c = i) cs)"


subsection \<open>Subscribers that call back into the store\<close>

text \<open>
  A callback is any function: besides returning or throwing it may call \<open>subscribe\<close>, the
  function \<open>subscribe\<close> returned (for itself or for another callback), and \<open>setState\<close>.
  Here the subscriber array holds the identities of the callbacks, and \<open>callbacks\<close> tells
  what the callback with a given identity does when it is called with a state: the
  calls it makes into the store, in order, and how it ends.
\<close>

datatype cb_action = CallSubscribe nat | CallUnsubscribe nat | CallSetState state_updates

type_synonym callbacks = "nat \<Rightarrow> app_state \<Rightarrow> cb_action list \<times> cb_outcome"

record live_store =
  ls_state :: app_state
  ls_subscribers :: "nat list"

definition subscribe_live :: "live_store \<Rightarrow> nat \<Rightarrow> live_store" where
  "subscribe_live st callback = st\<lparr>ls_subscribers := ls_subscribers st @ [callback]\<rparr>"

text \<open>\<open>indexOf\<close> and \<open>splice(index, 1)\<close>: the first entry that is the callback goes.\<close>

definition unsubscribe_live :: "live_store \<Rightarrow> nat \<Rightarrow> live_store" where
  "unsubscribe_live st callback = st\<lparr>ls_subscribers := remove1 callback (ls_subscribers st)\<rparr>"

text \<open>
  The calls a callback makes, with \<open>setState_again\<close> for a \<open>setState\<close> from inside it
  (\<open>None\<close>: that call does not come back).
\<close>

fun perform ::
  "(live_store \<Rightarrow> state_updates \<Rightarrow> (live_store \<times> store_effect list) option) \<Rightarrow>
   cb_action list \<Rightarrow> live_store \<Rightarrow> (live_store \<times> store_effect list) option" where
  "perform setState_again [] st = Some (st, [])"
| "perform setState_again (CallSubscribe r # acts) st =
     perform setState_again acts (subscribe_live st r)"
| "perform setState_again (CallUnsubscribe r # acts) st =
     perform setState_again acts (unsubscribe_live st r)"
| "perform setState_again (CallSetState updates # acts) st =
     (case setState_again st updates of
        None \<Rightarrow> None
      | Some (st1, fx1) \<Rightarrow>
          (case perform setState_again acts st1 of
             None \<Rightarrow> None
           | Some (st2, fx2) \<Rightarrow> Some (st2, fx1 @ fx2)))"

text \<open>
  \<open>this.subscribers.forEach\<close>: the number of rounds is the length of the array when the
  loop starts; round \<open>k\<close> looks at index \<open>k\<close> of the array as it is then, and skips an
  index that is no longer there. The callback gets \<open>this.state\<close> as it is then.
\<close>

fun forEach_from ::
  "(live_store \<Rightarrow> state_updates \<Rightarrow> (live_store \<times> store_effect list) option) \<Rightarrow>
   callbacks \<Rightarrow> nat \<Rightarrow> nat \<Rightarrow> live_store \<Rightarrow> (live_store \<times> store_effect list) option" where
  "forEach_from setState_again cbs 0 k st = Some (st, [])"
| "forEach_from setState_again cbs (Suc rounds) k st =
     (if k < length (ls_subscribers st) then
        (let callback = ls_subscribers st ! k;
             snapshot = ls_state st;
             (acts, outcome) = cbs callback snapshot
         in case perform setState_again acts st of
              None \<Rightarrow> None
            | Some (st1, fx1) \<Rightarrow>
                (case forEach_from setState_again cbs rounds (Suc k) st1 of
                   None \<Rightarrow> None
                 | Some (st2, fx2) \<Rightarrow>
                     Some (st2, Called callback snapshot # fx1
                                @ (case outcome of Returned \<Rightarrow> [] | Threw \<Rightarrow> [ConsoleError callback])
                                @ fx2)))
      else forEach_from setState_again cbs rounds (Suc k) st)"

definition notify_live ::
  "(live_store \<Rightarrow> state_updates \<Rightarrow> (live_store \<times> store_effect list) option) \<Rightarrow>
   callbacks \<Rightarrow> live_store \<Rightarrow> (live_store \<times> store_effect list) option" where
  "notify_live setState_again cbs st =
     forEach_from setState_again cbs (length (ls_subscribers st)) 0 st"

text \<open>
  \<open>setState\<close> with callbacks that may call \<open>setState\<close> themselves. The first argument bounds
  how deep such calls nest; beyond it the result is \<open>None\<close>.
\<close>

primrec setState_live ::
  "nat \<Rightarrow> callbacks \<Rightarrow> live_store \<Rightarrow> state_updates \<Rightarrow> (live_store \<times> store_effect list) option" where
  "setState_live 0 cbs st updates = None"
| "setState_live (Suc depth) cbs st updates =
     notify_live (setState_live depth cbs) cbs (st\<lparr>ls_state := spread_state (ls_state st) updates\<rparr>)"



subsection \<open>getFilteredConversations\<close>

text \<open>
  The callback of the search \<open>filter\<close>. \<open>conversation.name.toLowerCase()\<close> is a
  \<open>TypeError\<close> when the name is \<open>undefined\<close>; the number is guarded by \<open>&&\<close> and is compared
  as it is stored, against the lower-cased query.
\<close>

definition matches_search :: "case_table \<Rightarrow> ustring \<Rightarrow> conversation \<Rightarrow> js_error + bool" where
  "matches_search lower query conversation =
     (case c_name conversation of
        None \<Rightarrow> Inl TypeError
      | Some name \<Rightarrow>
          (let matchesName = includes_str (toLowerCase lower name) query;
               matchesTags =
                 list_ex (\<lambda>tag. includes_str (toLowerCase lower tag) query) (c_tags conversation);
               matchesNumber =
                 (case c_number conversation of
                    None \<Rightarrow> False
                  | Some number \<Rightarrow> number \<noteq> [] \<and> includes_str number query)
           in Inr (matchesName \<or> matchesTags \<or> matchesNumber)))"

text \<open>\<open>Array.prototype.filter\<close> with a callback that may throw: the first throw ends it.\<close>

fun filter_throwing :: "('a \<Rightarrow> js_error + bool) \<Rightarrow> 'a list \<Rightarrow> js_error + 'a list" where
  "filter_throwing f [] = Inr []"
| "filter_throwing f (x # xs) =
     (case f x of
        Inl e \<Rightarrow> Inl e
      | Inr keep \<Rightarrow>
          (case filter_throwing f xs of
             Inl e \<Rightarrow> Inl e
           | Inr r \<Rightarrow> Inr (if keep then x # r else r)))"

definition getFilteredConversations :: "case_table \<Rightarrow> app_state \<Rightarrow> js_error + conversation list" where
  "getFilteredConversations lower s =
     (case (if searchQuery s \<noteq> []
            then filter_throwing (matches_search lower (toLowerCase lower (searchQuery s)))
                   (conversations s)
            else Inr (conversations s)) of
        Inl e \<Rightarrow> Inl e
      | Inr filtered \<Rightarrow>
          Inr (if selectedFilter s = ''unread'' then filter (\<lambda>c. 0 < c_unread c) filtered
               else if selectedFilter s = ''attention'' then filter c_needsAttention filtered
               else filtered))"

text \<open>
  The specification's reading of the search: name, any tag or phone number contains the
  query, all three compared without regard to case.
\<close>

definition contains_ci :: "case_table \<Rightarrow> ustring \<Rightarrow> ustring \<Rightarrow> bool" where
  "contains_ci lower txt q = includes_str (toLowerCase lower txt) (toLowerCase lower q)"

definition spec_matches :: "case_table \<Rightarrow> ustring \<Rightarrow> conversation \<Rightarrow> bool" where
  "spec_matches lower q c =
     ((case c_name c of None \<Rightarrow> False | Some n \<Rightarrow> contains_ci lower n q)
      \<or> list_ex (\<lambda>t. contains_ci lower t q) (c_tags c)
      \<or> (case c_number c of None \<Rightarrow> False | Some n \<Rightarrow> contains_ci lower n q))"

definition spec_search :: "case_table \<Rightarrow> app_state \<Rightarrow> conversation list" where
  "spec_search lower s =
     (if searchQuery s = [] then conversations s
      else filter (spec_matches lower (searchQuery s)) (conversations s))"

subsection \<open>Example data\<close>

definition example_conversation :: "string \<Rightarrow> string \<Rightarrow> string \<Rightarrow> conversation" where
  "example_conversation i n num =
     \<lparr>c_id = i, c_name = Some (units n), c_initials = None, c_number = Some (units num),
      c_src = ''Whats'', c_tags = [units ''lead'', units ''fx''], c_unread = 0,
      c_needsAttention = True, c_interview = Null, c_messages = []\<rparr>"

definition example_state :: "conversation list \<Rightarrow> string \<Rightarrow> string \<Rightarrow> app_state" where
  "example_state cs q f =
     initial_state\<lparr>conversations := cs, searchQuery := units q, selectedFilter := f\<rparr>"

definition example_message :: "int \<Rightarrow> string \<Rightarrow> message" where
  "example_message i t =
     \<lparr>m_id = i, m_from = ''them'', m_type = 2, m_label = ''Client'', m_color = ''in'', m_text = t,
      m_isAudio = False, m_audioData = None, m_audioUrl = NoUrl\<rparr>"

definition example_subscribers :: "subscriber list" where
  "example_subscribers =
     [\<lparr>sub_ref = 1, sub_body = (\<lambda>s. Returned)\<rparr>,
      \<lparr>sub_ref = 2, sub_body = (\<lambda>s. Threw)\<rparr>,
      \<lparr>sub_ref = 3, sub_body = (\<lambda>s. if isManualMode s then Threw else Returned)\<rparr>]"

definition example_store :: "conversation list \<Rightarrow> store" where
  "example_store cs = \<lparr>state = example_state cs [] ''all'', subscribers = example_subscribers\<rparr>"

section \<open>Configuration\<close>

record message_type =
  mt_from :: string
  mt_label :: string
  mt_color :: string

text \<open>\<open>CONFIG.MESSAGE_TYPES\<close>; the labels start with an emoji, given by its UTF-8 bytes.\<close>

definition MESSAGE_TYPES :: "int \<Rightarrow> message_type option" where
  "MESSAGE_TYPES = map_of
     [(1, \<lparr>mt_from = ''bot'', mt_label = map char_of [240, 159, 164, 150 :: nat] @ '' Bot'',
           mt_color = ''out''\<rparr>),
      (2, \<lparr>mt_from = ''them'', mt_label = map char_of [240, 159, 145, 164 :: nat] @ '' Client'',
           mt_color = ''in''\<rparr>),
      (3, \<lparr>mt_from = ''bot'', mt_label = map char_of [240, 159, 164, 150 :: nat] @ '' AI'',
           mt_color = ''out''\<rparr>),
      (4, \<lparr>mt_from = ''admin'',
           mt_label = map char_of [240, 159, 145, 168, 226, 128, 141, 240, 159, 146, 188 :: nat] @ '' Admin'',
           mt_color = ''out''\<rparr>)]"

definition DEFAULT_TAGS :: "ustring list" where
  "DEFAULT_TAGS = [units ''lead'', units ''fx'']"

definition CONNECTION_RETRY_DELAY :: nat where
  "CONNECTION_RETRY_DELAY = 5000"

definition TOAST_DURATION :: nat where
  "TOAST_DURATION = 1600"

section \<open>ApiService\<close>

subsection \<open>Base64 and the platform's \<open>atob\<close>\<close>

definition is_base64_char :: "char \<Rightarrow> bool" where
  "is_base64_char c =
     (let n = (of_char c :: nat) in
      (65 \<le> n \<and> n \<le> 90) \<or> (97 \<le> n \<and> n \<le> 122) \<or> (48 \<le> n \<and> n \<le> 57) \<or> n = 43 \<or> n = 47)"

definition base64_value :: "char \<Rightarrow> nat" where
  "base64_value c =
     (let n = (of_char c :: nat) in
      if 65 \<le> n \<and> n \<le> 90 then n - 65
      else if 97 \<le> n \<and> n \<le> 122 then n - 71
      else if 48 \<le> n \<and> n \<le> 57 then n + 4
      else if n = 43 then 62 else 63)"

fun decode_sextets :: "nat list \<Rightarrow> string" where
  "decode_sextets (a # b # c # d # rest) =
     char_of (a * 4 + b div 16) # char_of ((b mod 16) * 16 + c div 4) # char_of ((c mod 4) * 64 + d)
       # decode_sextets rest"
| "decode_sextets [a, b, c] = [char_of (a * 4 + b div 16), char_of ((b mod 16) * 16 + c div 4)]"
| "decode_sextets [a, b] = [char_of (a * 4 + b div 16)]"
| "decode_sextets _ = []"

definition is_ascii_whitespace :: "char \<Rightarrow> bool" where
  "is_ascii_whitespace c = ((of_char c :: nat) \<in> {9, 10, 12, 13, 32})"

text \<open>
  \<open>atob\<close> is the browser's forgiving base64 decoder: ASCII whitespace is dropped, one or
  two closing \<open>=\<close> are dropped when the length is a multiple of four, and then a length
  of one modulo four or a character outside the alphabet is an error (\<open>None\<close>).
\<close>

definition strip_padding :: "string \<Rightarrow> string" where
  "strip_padding d =
     (if length d mod 4 = 0 then
        (if 2 \<le> length d \<and> drop (length d - 2) d = ''=='' then take (length d - 2) d
         else if 1 \<le> length d \<and> drop (length d - 1) d = ''='' then take (length d - 1) d
         else d)
      else d)"

definition atob :: "string \<Rightarrow> string option" where
  "atob data =
     (let d = strip_padding (filter (\<lambda>c. \<not> is_ascii_whitespace c) data) in
      if length d mod 4 = 1 then None
      else if \<not> list_all is_base64_char d then None
      else Some (decode_sextets (map base64_value d)))"

subsection \<open>convertBase64ToAudioUrl\<close>

text \<open>
  The match of \<open>/^data:([^;]+);base64,/\<close>: the MIME type and what follows the prefix.
\<close>

definition data_url_match :: "string \<Rightarrow> (string \<times> string) option" where
  "data_url_match s =
     (if startsWith s ''data:'' then
        (let r = drop 5 s;
             m = takeWhile (\<lambda>c. c \<noteq> CHR '';'') r;
             t = dropWhile (\<lambda>c. c \<noteq> CHR '';'') r
         in if m \<noteq> [] \<and> startsWith t '';base64,'' then Some (m, drop 8 t) else None)
      else None)"

text \<open>\<open>base64Data.replace(/^data:[^;]+;base64,/, '')\<close>.\<close>

definition replace_data_prefix :: "string \<Rightarrow> string" where
  "replace_data_prefix base64Data =
     (case data_url_match base64Data of Some (_, rest) \<Rightarrow> rest | None \<Rightarrow> base64Data)"

text \<open>The test of \<open>/^[A-Za-z0-9+/]*={0,2}$/\<close>.\<close>

definition base64_format_ok :: "string \<Rightarrow> bool" where
  "base64_format_ok s = (dropWhile is_base64_char s \<in> {[], ''='', ''==''})"

text \<open>The format detected from the first decoded bytes.\<close>

definition sniff :: "string \<Rightarrow> string \<Rightarrow> string" where
  "sniff binaryStart mimeType =
     (if includes_str binaryStart ''ftyp'' then ''audio/mp4''
      else if includes_str binaryStart ''ID3'' \<or> startsWith binaryStart [char_of (255::nat), char_of (251::nat)]
        then ''audio/mpeg''
      else if includes_str binaryStart ''OggS'' then ''audio/ogg''
      else if includes_str binaryStart ''RIFF'' \<and> includes_str binaryStart ''WAVE'' then ''audio/wav''
      else mimeType)"

text \<open>
  The whole body is in a \<open>try\<close> whose \<open>catch\<close> returns \<open>null\<close>; the first \<open>atob\<close> has a
  \<open>try\<close> of its own that keeps the MIME type. \<open>Blob\<close> and \<open>URL.createObjectURL\<close> give
  the handle.
\<close>

definition convertBase64ToAudioUrl :: "string \<Rightarrow> audio_url" where
  "convertBase64ToAudioUrl base64Data =
     (if base64Data = [] then NullUrl
      else
        (let mimeType0 = (case data_url_match base64Data of Some (m, _) \<Rightarrow> m | None \<Rightarrow> ''audio/mp4'');
             base64Audio = (case data_url_match base64Data of Some (_, rest) \<Rightarrow> rest | None \<Rightarrow> base64Data)
         in if \<not> base64_format_ok base64Audio then NullUrl
            else
              (let mimeType =
                     (case atob (take 20 base64Audio) of
                        Some binaryStart \<Rightarrow> sniff binaryStart mimeType0
                      | None \<Rightarrow> mimeType0)
               in case atob base64Audio of
                    Some binaryString \<Rightarrow> BlobUrl mimeType binaryString
                  | None \<Rightarrow> NullUrl)))"

subsection \<open>mapMessageData\<close>

record raw_message =
  rm_id :: int
  rm_typo :: int
  rm_message :: string
  rm_isaudio :: bool

definition unknown_type :: message_type where
  "unknown_type = \<lparr>mt_from = ''unknown'', mt_label = ''Unknown'', mt_color = ''in''\<rparr>"

text \<open>The placeholder text of an audio message, byte for byte as the source file has it.\<close>

definition AUDIO_PLACEHOLDER :: string where
  "AUDIO_PLACEHOLDER = map char_of [195, 176, 197, 184, 197, 189, 194, 181 :: nat] @ '' Audio Message''"

definition mapMessageData :: "raw_message \<Rightarrow> message" where
  "mapMessageData msg =
     (let messageType = (case MESSAGE_TYPES (rm_typo msg) of Some t \<Rightarrow> t | None \<Rightarrow> unknown_type);
          mappedMessage =
            \<lparr>m_id = rm_id msg, m_from = mt_from messageType, m_type = rm_typo msg,
             m_label = mt_label messageType, m_color = mt_color messageType, m_text = rm_message msg,
             m_isAudio = rm_isaudio msg, m_audioData = None, m_audioUrl = NoUrl\<rparr>
      in if rm_isaudio msg \<and> rm_message msg \<noteq> []
         then mappedMessage\<lparr>m_audioData := Some (rm_message msg),
                m_audioUrl := convertBase64ToAudioUrl (rm_message msg),
                m_text := AUDIO_PLACEHOLDER\<rparr>
         else mappedMessage)"

subsection \<open>getInitials and mapConversationData\<close>

text \<open>\<open>split\<close> at every code unit that satisfies \<open>sep\<close>; fields may be empty.\<close>

fun split_where :: "('a \<Rightarrow> bool) \<Rightarrow> 'a list \<Rightarrow> 'a list list" where
  "split_where sep [] = [[]]"
| "split_where sep (c # cs) =
     (if sep c then [] # split_where sep cs
      else (case split_where sep cs of [] \<Rightarrow> [[c]] | t # ts \<Rightarrow> (c # t) # ts))"

text \<open>
  \<open>name?.split(' ').map(n => n[0]).join('').toUpperCase().slice(0, 2)\<close>: \<open>n[0]\<close> is the
  first code unit of a field and \<open>undefined\<close> for an empty field, which \<open>join\<close> writes as
  nothing; \<open>slice(0, 2)\<close> keeps two code units.
\<close>

definition getInitials :: "case_table \<Rightarrow> ustring option \<Rightarrow> ustring option" where
  "getInitials upper name =
     (case name of
        None \<Rightarrow> None
      | Some n \<Rightarrow>
          Some (take 2 (toUpperCase upper (concat (map (take 1) (split_where (\<lambda>u. u = 0x20) n))))))"

record raw_conversation =
  r_name :: "ustring option"
  r_number :: "ustring option"
  r_interview :: jsval
  r_history :: "raw_message list option"

function string_of_nat :: "nat \<Rightarrow> string" where
  "string_of_nat n =
     (if n < 10 then [char_of (48 + n)] else string_of_nat (n div 10) @ [char_of (48 + n mod 10)])"
  by pat_completeness auto
termination
  by (relation "measure id") auto

definition mapConversationData :: "case_table \<Rightarrow> raw_conversation \<Rightarrow> nat \<Rightarrow> conversation" where
  "mapConversationData upper number index =
     \<lparr>c_id = ''c'' @ string_of_nat (index + 1),
      c_name = r_name number,
      c_initials = getInitials upper (r_name number),
      c_number = r_number number,
      c_src = ''Whats'',
      c_tags = DEFAULT_TAGS,
      c_unread = 0,
      c_needsAttention = (\<not> truthy (r_interview number)),
      c_interview = r_interview number,
      c_messages = map mapMessageData (case r_history number of None \<Rightarrow> [] | Some h \<Rightarrow> h)\<rparr>"

text \<open>
  \<open>fetchConversations\<close>, given what \<open>fetch\<close> and \<open>response.json()\<close> deliver: an exception,
  or the decoded envelope. With status 200 and no \<open>numbers\<close> the call of \<open>map\<close> is a
  \<open>TypeError\<close>, caught like any other; its message is the engine's.
\<close>

record envelope =
  e_status :: int
  e_numbers :: "raw_conversation list option"
  e_message :: "string option"

datatype fetch_outcome = Rejected string | Json envelope

datatype 'a api_result = Success 'a | Failure string

definition fetchConversations :: "case_table \<Rightarrow> fetch_outcome \<Rightarrow> conversation list api_result" where
  "fetchConversations upper outcome =
     (case outcome of
        Rejected msg \<Rightarrow> Failure msg
      | Json data \<Rightarrow>
          (if e_status data = 200 then
             (case e_numbers data of
                None \<Rightarrow> Failure ''Cannot read properties of undefined''
              | Some numbers \<Rightarrow> Success (map (\<lambda>(number, index). mapConversationData upper number index)
                                   (zip numbers [0 ..< length numbers])))
           else Failure (case e_message data of
                           None \<Rightarrow> ''Error loading conversations''
                         | Some m \<Rightarrow> if m = [] then ''Error loading conversations'' else m)))"

text \<open>
  The specification's initials: the first character of each whitespace-separated token,
  upper-cased, at most two.
\<close>

definition spec_initials :: "case_table \<Rightarrow> ustring \<Rightarrow> ustring" where
  "spec_initials upper n =
     take 2 (toUpperCase upper (map hd (filter (\<lambda>t. t \<noteq> []) (split_where is_trim_space n))))"

text \<open>
  The specification's payload: a data URI is \<open>data:\<close>, a header, a comma and the data, and
  its prefix ends with the first comma (as the panel's recorder removes it, with
  \<open>split(',')[1]\<close>). Anything else has no prefix.
\<close>

definition spec_strip_data_uri :: "string \<Rightarrow> string" where
  "spec_strip_data_uri s =
     (if startsWith s ''data:'' \<and> CHR '','' \<in> set s
      then drop 1 (dropWhile (\<lambda>c. c \<noteq> CHR '','') s)
      else s)"

text \<open>
  Well-formed base64 (RFC 4648): a multiple of four characters, all of the alphabet,
  except that the last one or the last two may be the padding \<open>=\<close>.
\<close>

definition spec_well_formed_base64 :: "string \<Rightarrow> bool" where
  "spec_well_formed_base64 s =
     (length s mod 4 = 0
      \<and> (let padding = dropWhile is_base64_char s in
           padding = [] \<or> padding = ''='' \<or> padding = ''==''))"

text \<open>
  What the code's pattern and the decoder together let through: characters of the
  alphabet, then at most two \<open>=\<close>; with padding the length is a multiple of four, without
  it the length is anything but one modulo four.
\<close>

definition decodable_base64 :: "string \<Rightarrow> bool" where
  "decodable_base64 s =
     (let body = takeWhile is_base64_char s; pad = dropWhile is_base64_char s in
      (pad = [] \<and> length body mod 4 \<noteq> 1) \<or> ((pad = ''='' \<or> pad = ''=='') \<and> length s mod 4 = 0))"

definition example_raw_message :: "int \<Rightarrow> string \<Rightarrow> bool \<Rightarrow> raw_message" where
  "example_raw_message t txt audio = \<lparr>rm_id = 86, rm_typo = t, rm_message = txt, rm_isaudio = audio\<rparr>"

definition example_raw_conversation :: "string \<Rightarrow> jsval \<Rightarrow> raw_conversation" where
  "example_raw_conversation n i =
     \<lparr>r_name = Some (units n), r_number = Some (units ''+521''), r_interview = i,
      r_history = Some []\<rparr>"

section \<open>SocketService\<close>

text \<open>
  The service's own state, the events the socket delivers to its listeners, and what a
  listener does: calls of the registered callbacks (taken to return) and the timer it
  sets. \<open>TimerFires e\<close> is the timer's \<open>this.init()\<close>, where \<open>e\<close> is the exception of
  \<open>io(...)\<close>, if any.
\<close>

record socket_service =
  retryCount :: nat
  maxRetries :: nat
  socket :: bool

datatype socket_event = Connect | Disconnect | TimerFires "string option"

datatype socket_effect =
  CallOnConnect | CallOnDisconnect | CallOnError string | ScheduleInit nat | OpenSocket

definition socket_constructor :: socket_service where
  "socket_constructor = \<lparr>retryCount = 0, maxRetries = 5, socket = False\<rparr>"

definition init :: "string option \<Rightarrow> socket_service \<Rightarrow> socket_service \<times> socket_effect list" where
  "init io_error s =
     (case io_error of
        None \<Rightarrow> (s\<lparr>socket := True\<rparr>, [OpenSocket])
      | Some e \<Rightarrow> (s, [CallOnError e]))"

definition handleReconnection :: "socket_service \<Rightarrow> socket_service \<times> socket_effect list" where
  "handleReconnection s =
     (if retryCount s < maxRetries s
      then (s\<lparr>retryCount := retryCount s + 1\<rparr>, [ScheduleInit CONNECTION_RETRY_DELAY])
      else (s, [CallOnError ''Max reconnection attempts reached'']))"

fun socket_step :: "socket_service \<Rightarrow> socket_event \<Rightarrow> socket_service \<times> socket_effect list" where
  "socket_step s Connect = (s\<lparr>retryCount := 0\<rparr>, [CallOnConnect])"
| "socket_step s Disconnect =
     (let (s', fx) = handleReconnection s in (s', CallOnDisconnect # fx))"
| "socket_step s (TimerFires io_error) = init io_error s"

fun run :: "socket_service \<Rightarrow> socket_event list \<Rightarrow> socket_service \<times> socket_effect list" where
  "run s [] = (s, [])"
| "run s (e # es) =
     (let (s1, fx1) = socket_step s e; (s2, fx2) = run s1 es in (s2, fx1 @ fx2))"

text \<open>The delays of the reconnection attempts scheduled, and the errors reported.\<close>

fun scheduled :: "socket_effect list \<Rightarrow> nat list" where
  "scheduled [] = []"
| "scheduled (ScheduleInit d # fx) = d # scheduled fx"
| "scheduled (_ # fx) = scheduled fx"

fun reported :: "socket_effect list \<Rightarrow> string list" where
  "reported [] = []"
| "reported (CallOnError e # fx) = e # reported fx"
| "reported (_ # fx) = reported fx"

section \<open>UIManager\<close>

record toast_element =
  textContent :: string
  display :: string
  animation :: string

record thread_area =
  scrollTop :: nat
  clientHeight :: nat

text \<open>
  The elements the manager looked up (\<open>None\<close>: \<open>getElementById\<close> gave \<open>null\<close>), the value of
  the message input, and the store.
\<close>

record ui_manager =
  messageInput :: "ustring option"
  toast :: "toast_element option"
  threadArea :: "thread_area option"
  stateManager :: store

datatype ui_effect = DispatchEvent string ustring | ScheduleToastHide nat | HideTypingIndicator

definition showToast :: "ui_manager \<Rightarrow> string \<Rightarrow> ui_manager \<times> ui_effect list" where
  "showToast u msg =
     (case toast u of
        None \<Rightarrow> (u, [])
      | Some t \<Rightarrow>
          (u\<lparr>toast := Some (t\<lparr>textContent := msg, display := ''block'',
                animation := ''slideInRight 0.3s ease''\<rparr>)\<rparr>,
           [ScheduleToastHide TOAST_DURATION]))"

definition ACTIVATE_CONTROL :: string where
  "ACTIVATE_CONTROL = ''Activate '' @ [CHR 0x22] @ ''Take control'' @ [CHR 0x22] @ '' to intervene.''"

definition handleSendMessage :: "ui_manager \<Rightarrow> js_error + ui_manager \<times> ui_effect list" where
  "handleSendMessage u =
     (case messageInput u of
        None \<Rightarrow> Inl TypeError
      | Some v \<Rightarrow>
          (let message = trim v in
           if message = [] then Inr (u, [])
           else if \<not> isManualMode (getState (stateManager u)) then Inr (showToast u ACTIVATE_CONTROL)
           else Inr (u\<lparr>messageInput := Some []\<rparr>,
                     [DispatchEvent ''sendMessage'' message, HideTypingIndicator])))"

text \<open>
  The controller's listener for \<open>sendMessage\<close> is the only place an intervention is
  posted from: \<open>sendIntervention(conversation.number, message)\<close> for the active
  conversation, nothing without one.
\<close>

definition getActiveConversation :: "store \<Rightarrow> conversation option" where
  "getActiveConversation st =
     (case activeConversationId (state st) of
        None \<Rightarrow> None
      | Some i \<Rightarrow> find (\<lambda>c. c_id c = i) (conversations (state st)))"

datatype net_call = PostIntervention "ustring option" ustring

fun network_calls :: "store \<Rightarrow> ui_effect list \<Rightarrow> net_call list" where
  "network_calls st [] = []"
| "network_calls st (DispatchEvent name detail # fx) =
     (if name = ''sendMessage'' then
        (case getActiveConversation st of
           None \<Rightarrow> []
         | Some conversation \<Rightarrow> [PostIntervention (c_number conversation) detail])
      else []) @ network_calls st fx"
| "network_calls st (_ # fx) = network_calls st fx"

fun dispatched :: "ui_effect list \<Rightarrow> (string \<times> ustring) list" where
  "dispatched [] = []"
| "dispatched (DispatchEvent name detail # fx) = (name, detail) # dispatched fx"
| "dispatched (_ # fx) = dispatched fx"

subsection \<open>Rendering the thread\<close>

text \<open>
  \<open>Array.prototype.sort\<close> with a comparator is a stable sort; this is the stable insertion
  sort, which for a consistent comparator gives the one result every stable sort gives.
\<close>

fun insert_by :: "('a \<Rightarrow> 'a \<Rightarrow> int) \<Rightarrow> 'a \<Rightarrow> 'a list \<Rightarrow> 'a list" where
  "insert_by cmp x [] = [x]"
| "insert_by cmp x (y # ys) = (if cmp x y \<le> 0 then x # y # ys else y # insert_by cmp x ys)"

definition array_sort :: "('a \<Rightarrow> 'a \<Rightarrow> int) \<Rightarrow> 'a list \<Rightarrow> 'a list" where
  "array_sort cmp xs = foldr (insert_by cmp) xs []"

definition itemHeight :: nat where
  "itemHeight = 60"

text \<open>
  What the thread area shows after rendering: nothing new, the empty-conversation
  placeholder, or the message elements in document order.
\<close>

datatype rendering = NotRendered | EmptyConversation | Thread "message list"

text \<open>
  \<open>updateVirtualScrollView\<close>: the elements for the indices from
  \<open>max(0, startIndex - 5)\<close> up to \<open>endIndex\<close>.
\<close>

definition updateVirtualScrollView :: "thread_area \<Rightarrow> message list \<Rightarrow> message list" where
  "updateVirtualScrollView area messages =
     (let startIndex = scrollTop area div itemHeight;
          endIndex = min (startIndex + (clientHeight area + itemHeight - 1) div itemHeight + 5)
                       (length messages)
      in map (\<lambda>i. messages ! i) [startIndex - 5 ..< endIndex])"

definition renderConversationThread :: "ui_manager \<Rightarrow> rendering" where
  "renderConversationThread u =
     (case threadArea u of
        None \<Rightarrow> NotRendered
      | Some area \<Rightarrow>
          (case getActiveConversation (stateManager u) of
             None \<Rightarrow> NotRendered
           | Some conversation \<Rightarrow>
               if c_messages conversation = [] then EmptyConversation
               else
                 (let sortedMessages = array_sort (\<lambda>a b. m_id a - m_id b) (c_messages conversation)
                  in if 100 < length sortedMessages
                     then Thread (updateVirtualScrollView area sortedMessages)
                     else Thread sortedMessages)))"

definition shown :: "rendering \<Rightarrow> message list" where
  "shown r = (case r of Thread ms \<Rightarrow> ms | _ \<Rightarrow> [])"

text \<open>The earlier variant of the same method renders every message.\<close>

definition renderConversationThread_v1 :: "ui_manager \<Rightarrow> rendering" where
  "renderConversationThread_v1 u =
     (case threadArea u of
        None \<Rightarrow> NotRendered
      | Some area \<Rightarrow>
          (case getActiveConversation (stateManager u) of
             None \<Rightarrow> NotRendered
           | Some conversation \<Rightarrow>
               if c_messages conversation = [] then EmptyConversation
               else Thread (array_sort (\<lambda>a b. m_id a - m_id b) (c_messages conversation))))"

definition example_ui :: "string \<Rightarrow> bool \<Rightarrow> conversation list \<Rightarrow> ui_manager" where
  "example_ui v manual cs =
     \<lparr>messageInput = Some (units v),
      toast = Some \<lparr>textContent = [], display = ''none'', animation = []\<rparr>,
      threadArea = Some \<lparr>scrollTop = 0, clientHeight = 600\<rparr>,
      stateManager = \<lparr>state = (example_state cs [] ''all'')
          \<lparr>isManualMode := manual, activeConversationId := Some ''c1''\<rparr>,
        subscribers = []\<rparr>\<rparr>"

text \<open>A thread of 101 messages, stored from the newest to the oldest.\<close>

definition long_thread :: "message list" where
  "long_thread = map (\<lambda>i. example_message (int i) []) (rev [1 ..< 102])"

section \<open>Properties of the store\<close>


lemma findIndex_None: "findIndex p xs = None \<longleftrightarrow> (\<forall>x \<in> set xs. \<not> p x)"
  by (induction xs) (auto split: option.splits)

lemma findIndex_Some:
  "findIndex p xs = Some i \<Longrightarrow> i < length xs \<and> p (xs ! i) \<and> (\<forall>j < i. \<not> p (xs ! j))"
proof (induction xs arbitrary: i)
  case Nil
  then show ?case by simp
next
  case (Cons x xs)
  show ?case
  proof (cases "p x")
    case True
    with Cons.prems show ?thesis by simp
  next
    case False
    with Cons.prems obtain k where k: "findIndex p xs = Some k" "i = Suc k"
      by (auto split: option.splits)
    from Cons.IH [OF k(1)] False k(2) show ?thesis
      by (auto simp: less_Suc_eq_0_disj)
  qed
qed

lemma setState_state: "state (fst (setState st u)) = spread_state (state st) u"
  by (simp add: setState_def Let_def)



lemma spread_conversations_only:
  "spread_state s (no_updates\<lparr>u_conversations := Some cs\<rparr>) = s\<lparr>conversations := cs\<rparr>"
  by (simp add: spread_state_def no_updates_def assign_def)

section \<open>Notification with callbacks that call back\<close>







text \<open>
  A callback subscribed while the loop runs is not called in that loop: the number of
  rounds was fixed at its start.
\<close>

lemma subscribed_during_notify:
  "setState_live (Suc 0) (\<lambda>callback s. if callback = 1 then ([CallSubscribe 7], Returned) else ([], Returned))
     \<lparr>ls_state = initial_state, ls_subscribers = [1]\<rparr> no_updates =
   Some (\<lparr>ls_state = initial_state, ls_subscribers = [1, 7]\<rparr>, [Called 1 initial_state])"
  by (simp add: notify_live_def subscribe_live_def spread_state_def no_updates_def assign_def
      initial_state_def)

text \<open>
  A callback that calls \<open>setState\<close> starts a second round of calls inside the first: here
  callback 1 sets the manual-mode flag, once, and is called twice.
\<close>

lemma setState_during_notify:
  "setState_live (Suc (Suc 0))
     (\<lambda>callback s. if callback = 1 \<and> \<not> isManualMode s
                    then ([CallSetState (no_updates\<lparr>u_isManualMode := Some True\<rparr>)], Returned)
                    else ([], Returned))
     \<lparr>ls_state = initial_state, ls_subscribers = [1, 2]\<rparr> no_updates =
   Some (\<lparr>ls_state = initial_state\<lparr>isManualMode := True\<rparr>, ls_subscribers = [1, 2]\<rparr>,
         [Called 1 initial_state,
          Called 1 (initial_state\<lparr>isManualMode := True\<rparr>),
          Called 2 (initial_state\<lparr>isManualMode := True\<rparr>),
          Called 2 (initial_state\<lparr>isManualMode := True\<rparr>)])"
  by (simp add: notify_live_def spread_state_def no_updates_def assign_def initial_state_def
      Let_def)



section \<open>Upsert and append\<close>

lemma spread_conversation_payload: "spread_conversation (old :: conversation) payload = payload"
  by (cases old, cases payload) (simp add: spread_conversation_def)

lemma updateConversation_conversations:
  "conversations (state (fst (updateConversation st p))) =
     (case findIndex (\<lambda>c. c_id c = c_id p) (conversations (state st)) of
        Some i \<Rightarrow> (conversations (state st))[i := p]
      | None \<Rightarrow> conversations (state st) @ [p])"
  by (simp add: updateConversation_def Let_def setState_state spread_conversations_only
      spread_conversation_payload split: option.splits)

lemma findIndex_append_new:
  "findIndex p xs = None \<Longrightarrow> p y \<Longrightarrow> findIndex p (xs @ [y]) = Some (length xs)"
  by (induction xs) (auto split: option.splits if_splits)

lemma findIndex_update_same:
  "findIndex p xs = Some i \<Longrightarrow> p y \<Longrightarrow> findIndex p (xs[i := y]) = Some i"
proof (induction xs arbitrary: i)
  case Nil
  then show ?case by simp
next
  case (Cons x xs)
  show ?case
  proof (cases "p x")
    case True
    with Cons.prems show ?thesis by simp
  next
    case False
    with Cons.prems obtain k where k: "findIndex p xs = Some k" "i = Suc k"
      by (auto split: option.splits)
    from Cons.IH [OF k(1) Cons.prems(2)] False k(2) show ?thesis by simp
  qed
qed

lemma length_filter_update:
  "i < length xs \<Longrightarrow> p (xs ! i) \<Longrightarrow> p y \<Longrightarrow>
     length (filter p (xs[i := y])) = length (filter p xs)"
proof (induction xs arbitrary: i)
  case Nil
  then show ?case by simp
next
  case (Cons x xs)
  then show ?case by (cases i) auto
qed

lemma count_id_updateConversation:
  "count_id (c_id p) (conversations (state (fst (updateConversation st p)))) =
     max 1 (count_id (c_id p) (conversations (state st)))"
proof (cases "findIndex (\<lambda>c. c_id c = c_id p) (conversations (state st))")
  case None
  then have "filter (\<lambda>c. c_id c = c_id p) (conversations (state st)) = []"
    by (simp add: findIndex_None filter_empty_conv)
  with None show ?thesis
    by (simp add: updateConversation_conversations count_id_def)
next
  case (Some i)
  from findIndex_Some [OF Some]
  have i: "i < length (conversations (state st))"
    "c_id (conversations (state st) ! i) = c_id p" by simp_all
  then have "conversations (state st) ! i \<in> set (filter (\<lambda>c. c_id c = c_id p) (conversations (state st)))"
    by simp
  then have "0 < length (filter (\<lambda>c. c_id c = c_id p) (conversations (state st)))"
    by (rule length_pos_if_in_set)
  with Some i show ?thesis
    by (simp add: updateConversation_conversations count_id_def length_filter_update max_def
        Suc_le_eq)
qed

lemma updateConversation_again:
  "conversations (state (fst (updateConversation (fst (updateConversation st p)) p))) =
     conversations (state (fst (updateConversation st p)))"
proof (cases "findIndex (\<lambda>c. c_id c = c_id p) (conversations (state st))")
  case None
  then have first: "conversations (state (fst (updateConversation st p))) = conversations (state st) @ [p]"
    by (simp add: updateConversation_conversations)
  have "findIndex (\<lambda>c. c_id c = c_id p) (conversations (state st) @ [p]) =
      Some (length (conversations (state st)))"
    using None by (rule findIndex_append_new) simp
  with first show ?thesis
    by (simp add: updateConversation_conversations [of "fst (updateConversation st p)"])
next
  case (Some i)
  then have first: "conversations (state (fst (updateConversation st p))) = (conversations (state st))[i := p]"
    by (simp add: updateConversation_conversations)
  have "findIndex (\<lambda>c. c_id c = c_id p) ((conversations (state st))[i := p]) = Some i"
    using Some by (rule findIndex_update_same) simp
  with first show ?thesis
    by (simp add: updateConversation_conversations [of "fst (updateConversation st p)"])
qed

text \<open>
  C7, as stated: after two calls of \<open>updateConversation\<close> with the same payload exactly
  one entry has the payload's id, for every state. A state that already holds two
  entries with that id keeps both.
\<close>

theorem C7_counterexample:
  "count_id ''c1''
     (conversations (state (fst (updateConversation
        (fst (updateConversation
           (example_store [example_conversation ''c1'' ''Ana'' ''1'', example_conversation ''c1'' ''Bob'' ''2''])
           (example_conversation ''c1'' ''Eva'' ''3'')))
        (example_conversation ''c1'' ''Eva'' ''3''))))) = 2"
  by (simp add: updateConversation_conversations count_id_def example_store_def example_state_def
      example_conversation_def)

text \<open>
  C7, amended: in a state where at most one entry has the payload's id, two calls of
  \<open>updateConversation\<close> with the same payload leave exactly one entry with that id, and
  the second call leaves the list of conversations as the first call left it.
\<close>

theorem C7_updateConversation_upsert:
  assumes "count_id (c_id p) (conversations (state st)) \<le> 1"
  shows "count_id (c_id p)
           (conversations (state (fst (updateConversation (fst (updateConversation st p)) p)))) = 1
       \<and> conversations (state (fst (updateConversation (fst (updateConversation st p)) p))) =
           conversations (state (fst (updateConversation st p)))"
  using assms by (simp add: updateConversation_again count_id_updateConversation)

theorem C7_witness:
  "count_id ''c2'' (conversations (state (example_store [example_conversation ''c1'' ''Ana'' ''1''])))  \<le> 1
   \<and> count_id ''c2''
       (conversations (state (fst (updateConversation
          (fst (updateConversation (example_store [example_conversation ''c1'' ''Ana'' ''1''])
             (example_conversation ''c2'' ''Eva'' ''3'')))
          (example_conversation ''c2'' ''Eva'' ''3''))))) = 1"
proof -
  have h: "count_id (c_id (example_conversation ''c2'' ''Eva'' ''3''))
      (conversations (state (example_store [example_conversation ''c1'' ''Ana'' ''1'']))) \<le> 1"
    by (simp add: count_id_def example_store_def example_state_def example_conversation_def)
  have i: "c_id (example_conversation ''c2'' ''Eva'' ''3'') = ''c2''"
    by (simp add: example_conversation_def)
  show ?thesis
    using C7_updateConversation_upsert [OF h] h unfolding i by blast
qed

section \<open>addMessage\<close>





section \<open>Search and filter\<close>

text \<open>
  A conversation without a name makes the callback of the search throw: the name is not
  guarded as the number is.
\<close>

lemma unnamed_conversation_throws:
  "getFilteredConversations lower
     (example_state [(example_conversation ''c1'' ''Bob'' ''X1'')\<lparr>c_name := None\<rparr>] ''x1'' ''all'') =
   Inl TypeError"
  by (simp add: getFilteredConversations_def example_state_def example_conversation_def
      initial_state_def matches_search_def units_def)

text \<open>
  C2, at the failing input: one conversation, named \<open>Bob\<close>, with the phone number \<open>X1\<close>, the
  query \<open>x1\<close> and the filter \<open>all\<close>. The number contains the query without regard to case,
  so the search the claim describes keeps the conversation; \<open>getFilteredConversations\<close>
  compares the number as it is stored with the lower-cased query and returns nothing.
  The name is folded before it is compared: the query \<open>BOB\<close> finds the conversation.
\<close>

theorem C2_number_not_folded:
  "spec_search lower (example_state [example_conversation ''c1'' ''Bob'' ''X1''] ''x1'' ''all'') =
     [example_conversation ''c1'' ''Bob'' ''X1'']
   \<and> getFilteredConversations lower (example_state [example_conversation ''c1'' ''Bob'' ''X1''] ''x1'' ''all'') =
     Inr []
   \<and> getFilteredConversations lower (example_state [example_conversation ''c1'' ''Bob'' ''X1''] ''BOB'' ''all'') =
     Inr [example_conversation ''c1'' ''Bob'' ''X1'']"
  by (simp add: getFilteredConversations_def spec_search_def spec_matches_def contains_ci_def
      example_state_def example_conversation_def initial_state_def matches_search_def
      toLowerCase_def is_ascii_def ascii_lower_def units_def startsWith_def)

section \<open>Mapping backend records\<close>

lemma MESSAGE_TYPES_undefined: "t \<notin> {1, 2, 3, 4} \<Longrightarrow> MESSAGE_TYPES t = None"
  by (simp add: MESSAGE_TYPES_def)

lemma mapMessageData_type:
  "m_from (mapMessageData msg) =
     mt_from (case MESSAGE_TYPES (rm_typo msg) of Some t \<Rightarrow> t | None \<Rightarrow> unknown_type)"
  "m_label (mapMessageData msg) =
     mt_label (case MESSAGE_TYPES (rm_typo msg) of Some t \<Rightarrow> t | None \<Rightarrow> unknown_type)"
  "m_color (mapMessageData msg) =
     mt_color (case MESSAGE_TYPES (rm_typo msg) of Some t \<Rightarrow> t | None \<Rightarrow> unknown_type)"
  by (simp_all add: mapMessageData_def Let_def)

text \<open>
  C5. \<open>mapMessageData\<close> is total (it has no failing branch: the one call that can
  fail catches every exception). For the wire codes 1, 2, 3 and 4 the origin, label and
  colour of the mapped message are those of \<open>CONFIG.MESSAGE_TYPES\<close>; for every other code
  they are \<open>unknown\<close>, \<open>Unknown\<close> and \<open>in\<close>.
\<close>

theorem C5_mapMessageData_taxonomy:
  "(rm_typo msg = 1 \<longrightarrow>
      m_from (mapMessageData msg) = ''bot''
      \<and> m_label (mapMessageData msg) = map char_of [240, 159, 164, 150 :: nat] @ '' Bot''
      \<and> m_color (mapMessageData msg) = ''out'')
   \<and> (rm_typo msg = 2 \<longrightarrow>
      m_from (mapMessageData msg) = ''them''
      \<and> m_label (mapMessageData msg) = map char_of [240, 159, 145, 164 :: nat] @ '' Client''
      \<and> m_color (mapMessageData msg) = ''in'')
   \<and> (rm_typo msg = 3 \<longrightarrow>
      m_from (mapMessageData msg) = ''bot''
      \<and> m_label (mapMessageData msg) = map char_of [240, 159, 164, 150 :: nat] @ '' AI''
      \<and> m_color (mapMessageData msg) = ''out'')
   \<and> (rm_typo msg = 4 \<longrightarrow>
      m_from (mapMessageData msg) = ''admin''
      \<and> m_label (mapMessageData msg) =
          map char_of [240, 159, 145, 168, 226, 128, 141, 240, 159, 146, 188 :: nat] @ '' Admin''
      \<and> m_color (mapMessageData msg) = ''out'')
   \<and> (rm_typo msg \<notin> {1, 2, 3, 4} \<longrightarrow>
      m_from (mapMessageData msg) = ''unknown''
      \<and> m_label (mapMessageData msg) = ''Unknown''
      \<and> m_color (mapMessageData msg) = ''in'')"
proof (intro conjI impI)
  assume "rm_typo msg \<notin> {1, 2, 3, 4}"
  then have "MESSAGE_TYPES (rm_typo msg) = None" by (rule MESSAGE_TYPES_undefined)
  then show "m_from (mapMessageData msg) = ''unknown''" "m_label (mapMessageData msg) = ''Unknown''"
    "m_color (mapMessageData msg) = ''in''"
    by (simp_all add: mapMessageData_type unknown_type_def)
qed (simp_all add: mapMessageData_type MESSAGE_TYPES_def)

theorem C5_witness:
  "rm_typo (example_raw_message 9 ''hola'' False) \<notin> {1, 2, 3, 4}
   \<and> m_from (mapMessageData (example_raw_message 9 ''hola'' False)) = ''unknown''
   \<and> m_label (mapMessageData (example_raw_message 9 ''hola'' False)) = ''Unknown''
   \<and> m_color (mapMessageData (example_raw_message 9 ''hola'' False)) = ''in''
   \<and> rm_typo (example_raw_message 4 ''hola'' False) = 4
   \<and> m_from (mapMessageData (example_raw_message 4 ''hola'' False)) = ''admin''
   \<and> m_color (mapMessageData (example_raw_message 4 ''hola'' False)) = ''out''"
proof -
  have a: "rm_typo (example_raw_message 9 ''hola'' False) \<notin> {1, 2, 3, 4}"
    by (simp add: example_raw_message_def)
  have b: "rm_typo (example_raw_message 4 ''hola'' False) = 4"
    by (simp add: example_raw_message_def)
  from a b C5_mapMessageData_taxonomy [of "example_raw_message 9 ''hola'' False"]
    C5_mapMessageData_taxonomy [of "example_raw_message 4 ''hola'' False"]
  show ?thesis by blast
qed

lemma concat_take_1: "concat (map (take 1) ts) = map hd (filter (\<lambda>t. t \<noteq> []) ts)"
proof (induction ts)
  case Nil
  then show ?case by simp
next
  case (Cons t ts)
  then show ?case by (cases t) simp_all
qed

lemma split_where_cong:
  "(\<forall>c \<in> set n. p c = q c) \<Longrightarrow> split_where p n = split_where q n"
  by (induction n) simp_all

lemma getInitials_Some:
  "getInitials upper (Some n) =
     Some (take 2 (toUpperCase upper (map hd (filter (\<lambda>t. t \<noteq> [])
        (split_where (\<lambda>u. u = 0x20) n)))))"
  by (simp only: getInitials_def concat_take_1 option.case)

lemma is_trim_space_space: "is_trim_space 0x20"
  by (simp add: is_trim_space_def)

lemma getInitials_spec:
  assumes "\<forall>u \<in> set n. is_trim_space u \<longrightarrow> u = 0x20"
  shows "getInitials upper (Some n) = Some (spec_initials upper n)"
proof -
  from assms have "\<forall>u \<in> set n. is_trim_space u = (u = 0x20)"
    using is_trim_space_space by auto
  then have "split_where is_trim_space n = split_where (\<lambda>u. u = 0x20) n"
    by (rule split_where_cong)
  then show ?thesis by (simp add: getInitials_Some spec_initials_def)
qed

lemma toUpperCase_ascii: "is_ascii s \<Longrightarrow> toUpperCase upper s = map ascii_upper s"
  by (simp add: toUpperCase_def)

lemma map_zip_index:
  "map (\<lambda>(x, i). f x i) (zip xs [0 ..< length xs]) = map (\<lambda>i. f (xs ! i) i) [0 ..< length xs]"
  by (rule nth_equalityI) simp_all

lemma set_split_where: "set (concat (split_where p n)) \<subseteq> set n"
proof (induction n)
  case Nil
  then show ?case by simp
next
  case (Cons c n)
  then show ?case by (cases "split_where p n") auto
qed

lemma heads_of_fields:
  "set (map hd (filter (\<lambda>t. t \<noteq> []) (split_where p n))) \<subseteq> set n"
proof -
  have "set (map hd (filter (\<lambda>t. t \<noteq> []) ts)) \<subseteq> set (concat ts)" for ts :: "'a list list"
    by (induction ts) auto
  with set_split_where [of p n] show ?thesis by blast
qed

lemma getInitials_ascii:
  assumes "is_ascii n"
  shows "getInitials upper (Some n) =
     Some (take 2 (map ascii_upper (map hd (filter (\<lambda>t. t \<noteq> [])
        (split_where (\<lambda>u. u = 0x20) n)))))"
proof -
  have "is_ascii (map hd (filter (\<lambda>t. t \<noteq> []) (split_where (\<lambda>u. u = 0x20) n)))"
    using assms heads_of_fields [of "\<lambda>u. u = 0x20" n]
    unfolding is_ascii_def list_all_iff by blast
  then show ?thesis
    by (simp only: getInitials_Some toUpperCase_ascii)
qed

text \<open>
  C9, as stated: the initials take the first character of each whitespace-separated
  token, and \<open>needsAttention\<close> is true exactly when \<open>interview\<close> is absent or \<open>null\<close>. A tab
  separates two tokens of a name and \<open>split(' ')\<close> does not split there; an \<open>interview\<close>
  of \<open>false\<close> is neither absent nor \<open>null\<close> and \<open>needsAttention\<close> is true.
\<close>

theorem C9_counterexample:
  "spec_initials no_table (units (''Ana'' @ [CHR 0x09] @ ''Ruiz'')) = units ''AR''
   \<and> c_initials (mapConversationData no_table
         (example_raw_conversation (''Ana'' @ [CHR 0x09] @ ''Ruiz'') Null) 0) = Some (units ''A'')
   \<and> r_interview (example_raw_conversation ''Ana Ruiz'' (JBool False)) \<noteq> Undefined
   \<and> r_interview (example_raw_conversation ''Ana Ruiz'' (JBool False)) \<noteq> Null
   \<and> c_needsAttention (mapConversationData no_table (example_raw_conversation ''Ana Ruiz'' (JBool False)) 0)"
  by (simp add: spec_initials_def mapConversationData_def getInitials_def example_raw_conversation_def
      toUpperCase_def is_ascii_def ascii_upper_def units_def is_trim_space_def)

text \<open>
  C9, amended: for every raw entry of a success envelope (status 200 with a list of
  entries) the mapped conversation's initials are \<open>getInitials\<close> of the name: the first
  code unit of each non-empty field of the name split at single spaces, joined,
  upper-cased by \<open>toUpperCase\<close> (for an ASCII name: \<open>a\<close>..\<open>z\<close> become \<open>A\<close>..\<open>Z\<close>) and cut to two
  code units; for an ASCII name whose only white space is the space these are the
  initials of its whitespace-separated tokens. The initials are undefined, with nothing
  thrown, when the name is absent. \<open>needsAttention\<close> is true exactly when \<open>interview\<close> is
  falsy (absent, \<open>null\<close>, \<open>false\<close>, \<open>0\<close> or the empty string), in particular when it is
  absent or \<open>null\<close>. An absent or empty history gives an empty message sequence.
\<close>

theorem C9_mapConversationData:
  "(e_status data = 200 \<and> e_numbers data = Some numbers \<longrightarrow>
      fetchConversations upper (Json data) =
        Success (map (\<lambda>i. mapConversationData upper (numbers ! i) i) [0 ..< length numbers]))
   \<and> c_initials (mapConversationData upper number index) = getInitials upper (r_name number)
   \<and> getInitials upper None = None
   \<and> getInitials upper (Some n) =
       Some (take 2 (toUpperCase upper (map hd (filter (\<lambda>t. t \<noteq> [])
          (split_where (\<lambda>u. u = 0x20) n)))))
   \<and> (is_ascii n \<longrightarrow>
        getInitials upper (Some n) =
          Some (take 2 (map ascii_upper (map hd (filter (\<lambda>t. t \<noteq> [])
             (split_where (\<lambda>u. u = 0x20) n))))))
   \<and> (is_ascii n \<and> (\<forall>u \<in> set n. is_trim_space u \<longrightarrow> u = 0x20) \<longrightarrow>
        getInitials upper (Some n) = Some (spec_initials upper n))
   \<and> c_needsAttention (mapConversationData upper number index) = (\<not> truthy (r_interview number))
   \<and> (r_interview number = Undefined \<or> r_interview number = Null \<longrightarrow>
        c_needsAttention (mapConversationData upper number index))
   \<and> (r_history number = None \<or> r_history number = Some [] \<longrightarrow>
        c_messages (mapConversationData upper number index) = [])"
proof -
  have fetch: "e_status data = 200 \<and> e_numbers data = Some numbers \<longrightarrow>
      fetchConversations upper (Json data) =
        Success (map (\<lambda>i. mapConversationData upper (numbers ! i) i) [0 ..< length numbers])"
    by (simp add: fetchConversations_def map_zip_index)
  have initials: "c_initials (mapConversationData upper number index) = getInitials upper (r_name number)"
    by (simp add: mapConversationData_def)
  have absent: "getInitials upper None = None"
    by (simp add: getInitials_def)
  have attention: "c_needsAttention (mapConversationData upper number index) = (\<not> truthy (r_interview number))"
    by (simp add: mapConversationData_def)
  have null: "r_interview number = Undefined \<or> r_interview number = Null \<longrightarrow>
        c_needsAttention (mapConversationData upper number index)"
    by (auto simp: mapConversationData_def)
  have history: "r_history number = None \<or> r_history number = Some [] \<longrightarrow>
        c_messages (mapConversationData upper number index) = []"
    by (auto simp: mapConversationData_def)
  have ascii: "is_ascii n \<longrightarrow>
        getInitials upper (Some n) =
          Some (take 2 (map ascii_upper (map hd (filter (\<lambda>t. t \<noteq> [])
             (split_where (\<lambda>u. u = 0x20) n)))))"
  proof
    assume "is_ascii n"
    then show "getInitials upper (Some n) =
          Some (take 2 (map ascii_upper (map hd (filter (\<lambda>t. t \<noteq> [])
             (split_where (\<lambda>u. u = 0x20) n)))))"
      by (rule getInitials_ascii)
  qed
  have spec: "is_ascii n \<and> (\<forall>u \<in> set n. is_trim_space u \<longrightarrow> u = 0x20) \<longrightarrow>
        getInitials upper (Some n) = Some (spec_initials upper n)"
  proof
    assume "is_ascii n \<and> (\<forall>u \<in> set n. is_trim_space u \<longrightarrow> u = 0x20)"
    then have "\<forall>u \<in> set n. is_trim_space u \<longrightarrow> u = 0x20" by (rule conjunct2)
    then show "getInitials upper (Some n) = Some (spec_initials upper n)"
      by (rule getInitials_spec)
  qed
  note some = getInitials_Some [of upper n]
  show ?thesis
    by (intro conjI) (rule fetch initials absent some ascii spec attention null history)+
qed

theorem C9_witness:
  "fetchConversations no_table (Json \<lparr>e_status = 200,
       e_numbers = Some [example_raw_conversation ''Ana Ruiz'' Null], e_message = None\<rparr>) =
     Success [\<lparr>c_id = ''c1'', c_name = Some (units ''Ana Ruiz''), c_initials = Some (units ''AR''),
       c_number = Some (units ''+521''), c_src = ''Whats'', c_tags = [units ''lead'', units ''fx''],
       c_unread = 0, c_needsAttention = True, c_interview = Null, c_messages = []\<rparr>]
   \<and> is_ascii (units ''Ana Ruiz'')
   \<and> getInitials no_table (Some (units ''Ana Ruiz'')) = Some (spec_initials no_table (units ''Ana Ruiz''))
   \<and> spec_initials no_table (units ''Ana Ruiz'') = units ''AR''
   \<and> r_interview (example_raw_conversation ''Ana Ruiz'' Null) = Null
   \<and> c_needsAttention (mapConversationData no_table (example_raw_conversation ''Ana Ruiz'' Null) 0)
   \<and> r_history (example_raw_conversation ''Ana Ruiz'' Null) = Some []
   \<and> c_messages (mapConversationData no_table (example_raw_conversation ''Ana Ruiz'' Null) 0) = []"
proof -
  let ?r = "example_raw_conversation ''Ana Ruiz'' Null"
  let ?d = "\<lparr>e_status = 200, e_numbers = Some [?r], e_message = None\<rparr>"
  let ?n = "units ''Ana Ruiz''"
  have h: "e_status ?d = 200 \<and> e_numbers ?d = Some [?r]"
    by simp
  have a: "is_ascii ?n"
    by (simp add: is_ascii_def units_def)
  have s: "\<forall>u \<in> set ?n. is_trim_space u \<longrightarrow> u = 0x20"
    by (simp add: units_def is_trim_space_def)
  have i: "r_interview ?r = Null" "r_history ?r = Some []"
    by (simp_all add: example_raw_conversation_def)
  have v: "spec_initials no_table ?n = units ''AR''"
    by (simp add: spec_initials_def toUpperCase_def is_ascii_def ascii_upper_def units_def
        is_trim_space_def)
  have m: "mapConversationData no_table ?r 0 =
      \<lparr>c_id = ''c1'', c_name = Some (units ''Ana Ruiz''), c_initials = Some (units ''AR''),
       c_number = Some (units ''+521''), c_src = ''Whats'', c_tags = [units ''lead'', units ''fx''],
       c_unread = 0, c_needsAttention = True, c_interview = Null, c_messages = []\<rparr>"
    by code_simp
  note t = C9_mapConversationData [where data = ?d and numbers = "[?r]" and upper = no_table
      and number = ?r and index = 0 and n = ?n]
  from t h have f: "fetchConversations no_table (Json ?d) =
      Success (map (\<lambda>i. mapConversationData no_table ([?r] ! i) i) [0 ..< 1])"
    by simp
  from t a s have g: "getInitials no_table (Some ?n) = Some (spec_initials no_table ?n)"
    by blast
  from t i(1) have na: "c_needsAttention (mapConversationData no_table ?r 0)"
    by blast
  from t i(2) have ms: "c_messages (mapConversationData no_table ?r 0) = []"
    by blast
  from f m have f': "fetchConversations no_table (Json ?d) =
     Success [\<lparr>c_id = ''c1'', c_name = Some (units ''Ana Ruiz''), c_initials = Some (units ''AR''),
       c_number = Some (units ''+521''), c_src = ''Whats'', c_tags = [units ''lead'', units ''fx''],
       c_unread = 0, c_needsAttention = True, c_interview = Null, c_messages = []\<rparr>]"
    by simp
  show ?thesis
    by (intro conjI) (rule f' a g v i na ms)+
qed

section \<open>Audio payloads\<close>

lemma eq_not_base64: "\<not> is_base64_char CHR ''=''"
  by (simp add: is_base64_char_def)

lemma base64_not_whitespace: "is_base64_char c \<Longrightarrow> \<not> is_ascii_whitespace c"
  by (auto simp: is_base64_char_def is_ascii_whitespace_def Let_def)

lemma eq_not_whitespace: "\<not> is_ascii_whitespace CHR ''=''"
  by (simp add: is_ascii_whitespace_def)

lemma filter_whitespace_base64:
  "list_all is_base64_char b \<Longrightarrow> filter (\<lambda>c. \<not> is_ascii_whitespace c) b = b"
  by (induction b) (simp_all add: base64_not_whitespace)

lemma drop_base64_no_pad:
  assumes "list_all is_base64_char b"
  shows "drop n b \<noteq> ''=''" "drop n b \<noteq> ''==''"
proof -
  have "CHR ''='' \<notin> set (drop n b)"
    using assms eq_not_base64 by (auto simp: list_all_iff dest: in_set_dropD)
  then show "drop n b \<noteq> ''=''" "drop n b \<noteq> ''==''" by auto
qed

lemma strip_padding_base64:
  "list_all is_base64_char b \<Longrightarrow> strip_padding b = b"
  by (simp add: strip_padding_def drop_base64_no_pad)

lemma atob_base64:
  assumes "list_all is_base64_char b"
  shows "atob b = (if length b mod 4 = 1 then None else Some (decode_sextets (map base64_value b)))"
  using assms by (simp add: atob_def Let_def filter_whitespace_base64 strip_padding_base64)

lemma strip_padding_one:
  assumes "list_all is_base64_char b"
  shows "strip_padding (b @ ''='') = (if Suc (length b) mod 4 = 0 then b else b @ ''='')"
proof -
  have "drop (length b - Suc 0) b \<noteq> ''=''" using assms by (rule drop_base64_no_pad)
  then show ?thesis by (simp add: strip_padding_def)
qed

lemma strip_padding_two:
  assumes "list_all is_base64_char b"
  shows "strip_padding (b @ ''=='') = (if Suc (Suc (length b)) mod 4 = 0 then b else b @ ''=='')"
  by (simp add: strip_padding_def)

lemma atob_padded_one:
  assumes "list_all is_base64_char b"
  shows "atob (b @ ''='') =
     (if Suc (length b) mod 4 = 0 then Some (decode_sextets (map base64_value b)) else None)"
proof -
  have f: "filter (\<lambda>c. \<not> is_ascii_whitespace c) (b @ ''='') = b @ ''=''"
    using assms by (simp add: filter_whitespace_base64 eq_not_whitespace)
  have d: "strip_padding (filter (\<lambda>c. \<not> is_ascii_whitespace c) (b @ ''='')) =
      (if Suc (length b) mod 4 = 0 then b else b @ ''='')"
    by (simp only: f strip_padding_one [OF assms])
  have m: "Suc (length b) mod 4 = 0 \<Longrightarrow> length b mod 4 \<noteq> 1" by presburger
  show ?thesis
    unfolding atob_def Let_def d using assms m by (simp add: eq_not_base64)
qed

lemma atob_padded_two:
  assumes "list_all is_base64_char b"
  shows "atob (b @ ''=='') =
     (if Suc (Suc (length b)) mod 4 = 0 then Some (decode_sextets (map base64_value b)) else None)"
proof -
  have f: "filter (\<lambda>c. \<not> is_ascii_whitespace c) (b @ ''=='') = b @ ''==''"
    using assms by (simp add: filter_whitespace_base64 eq_not_whitespace)
  have d: "strip_padding (filter (\<lambda>c. \<not> is_ascii_whitespace c) (b @ ''=='')) =
      (if Suc (Suc (length b)) mod 4 = 0 then b else b @ ''=='')"
    by (simp only: f strip_padding_two [OF assms])
  have m: "Suc (Suc (length b)) mod 4 = 0 \<Longrightarrow> length b mod 4 \<noteq> 1" by presburger
  show ?thesis
    unfolding atob_def Let_def d using assms m by (simp add: eq_not_base64)
qed

lemma body_base64: "list_all is_base64_char (takeWhile is_base64_char s)"
  by (simp add: list_all_iff) (meson set_takeWhileD)

lemma validated_decodes:
  "(base64_format_ok s \<and> atob s \<noteq> None) = decodable_base64 s"
proof -
  define b where "b = takeWhile is_base64_char s"
  define p where "p = dropWhile is_base64_char s"
  have s: "s = b @ p" by (simp add: b_def p_def)
  have b: "list_all is_base64_char b" unfolding b_def by (rule body_base64)
  have ok: "base64_format_ok s = (p = [] \<or> p = ''='' \<or> p = ''=='')"
    unfolding base64_format_ok_def p_def by blast
  have wf: "decodable_base64 s =
      ((p = [] \<and> length b mod 4 \<noteq> 1) \<or> ((p = ''='' \<or> p = ''=='') \<and> length s mod 4 = 0))"
    unfolding decodable_base64_def Let_def b_def p_def ..
  consider "p = []" | "p = ''=''" | "p = ''==''" | "\<not> (p = [] \<or> p = ''='' \<or> p = ''=='')" by blast
  then show ?thesis
  proof cases
    case 1
    with s have "s = b" by simp
    with atob_base64 [OF b] 1 show ?thesis unfolding ok wf by simp
  next
    case 2
    with s have "s = b @ ''=''" by simp
    with atob_padded_one [OF b] 2 show ?thesis unfolding ok wf by simp
  next
    case 3
    with s have "s = b @ ''==''" by simp
    with atob_padded_two [OF b] 3 show ?thesis unfolding ok wf by simp
  next
    case 4
    then show ?thesis unfolding ok wf by blast
  qed
qed

lemma convertBase64ToAudioUrl_null:
  assumes "base64Data \<noteq> []"
  shows "(convertBase64ToAudioUrl base64Data = NullUrl) =
     (\<not> decodable_base64 (replace_data_prefix base64Data))"
  using assms validated_decodes [of "replace_data_prefix base64Data"]
  by (auto simp: convertBase64ToAudioUrl_def Let_def replace_data_prefix_def split: option.splits)

lemma convertBase64ToAudioUrl_handle:
  assumes "base64Data \<noteq> []" "decodable_base64 (replace_data_prefix base64Data)"
  shows "\<exists>mime bytes. convertBase64ToAudioUrl base64Data = BlobUrl mime bytes
     \<and> atob (replace_data_prefix base64Data) = Some bytes"
  using assms validated_decodes [of "replace_data_prefix base64Data"]
  by (auto simp: convertBase64ToAudioUrl_def Let_def replace_data_prefix_def split: option.splits)

lemma well_formed_decodable: "spec_well_formed_base64 s \<Longrightarrow> decodable_base64 s"
proof -
  assume wf: "spec_well_formed_base64 s"
  define b where "b = takeWhile is_base64_char s"
  define p where "p = dropWhile is_base64_char s"
  have s: "s = b @ p" by (simp add: b_def p_def)
  from wf have w: "length s mod 4 = 0" "p = [] \<or> p = ''='' \<or> p = ''==''"
    unfolding spec_well_formed_base64_def Let_def p_def by simp_all
  have d: "decodable_base64 s =
      ((p = [] \<and> length b mod 4 \<noteq> 1) \<or> ((p = ''='' \<or> p = ''=='') \<and> length s mod 4 = 0))"
    unfolding decodable_base64_def Let_def b_def p_def ..
  show ?thesis
  proof (cases "p = []")
    case True
    with s have "length b = length s" by simp
    with w(1) True show ?thesis unfolding d by simp
  next
    case False
    with w show ?thesis unfolding d by simp
  qed
qed

lemma no_prefix:
  assumes "\<not> startsWith p ''data:''"
  shows "replace_data_prefix p = p" "spec_strip_data_uri p = p"
  using assms by (simp_all add: replace_data_prefix_def data_url_match_def spec_strip_data_uri_def)

lemma plain_prefix:
  assumes "p = ''data:'' @ m @ '';base64,'' @ d" "m \<noteq> []" "CHR '';'' \<notin> set m" "CHR '','' \<notin> set m"
  shows "replace_data_prefix p = d" "spec_strip_data_uri p = d"
proof -
  have s: "startsWith p ''data:''" using assms(1) by (simp add: startsWith_def)
  have r: "drop 5 p = m @ CHR '';'' # (''base64,'' @ d)" using assms(1) by simp
  have m: "\<forall>x \<in> set m. x \<noteq> CHR '';''" using assms(3) by blast
  have t: "takeWhile (\<lambda>c. c \<noteq> CHR '';'') (drop 5 p) = m"
    unfolding r using m by (simp add: takeWhile_tail)
  have u: "dropWhile (\<lambda>c. c \<noteq> CHR '';'') (drop 5 p) = '';base64,'' @ d"
    unfolding r using m by (simp add: dropWhile_append3)
  from s t u assms(2) show "replace_data_prefix p = d"
    by (simp add: replace_data_prefix_def data_url_match_def Let_def startsWith_def)
  have c: "CHR '','' \<in> set p" using assms(1) by simp
  have k: "\<forall>x \<in> set m. x \<noteq> CHR '',''" using assms(4) by blast
  have e: "p = (''data:'' @ m @ '';base64'') @ CHR '','' # d" using assms(1) by simp
  have pre: "dropWhile (\<lambda>c. c \<noteq> CHR '','') (''data:'' @ m @ '';base64'') = []"
    using k by (simp add: dropWhile_append)
  have "dropWhile (\<lambda>c. c \<noteq> CHR '','') ((''data:'' @ m @ '';base64'') @ CHR '','' # d) =
      dropWhile (\<lambda>c. c \<noteq> CHR '','') (''data:'' @ m @ '';base64'') @ CHR '','' # d"
    by (rule dropWhile_append3) simp
  with pre e have "dropWhile (\<lambda>c. c \<noteq> CHR '','') p = CHR '','' # d"
    by (simp only: append_Nil)
  with s c show "spec_strip_data_uri p = d"
    by (simp add: spec_strip_data_uri_def)
qed


lemma lenient_only:
  "(decodable_base64 s \<and> \<not> spec_well_formed_base64 s) =
     (list_all is_base64_char s \<and> (length s mod 4 = 2 \<or> length s mod 4 = 3))"
proof -
  define b where "b = takeWhile is_base64_char s"
  define p where "p = dropWhile is_base64_char s"
  have s: "s = b @ p" by (simp add: b_def p_def)
  have a: "list_all is_base64_char s = (p = [])"
    unfolding p_def by (simp add: list_all_iff)
  have w: "spec_well_formed_base64 s = (length s mod 4 = 0 \<and> (p = [] \<or> p = ''='' \<or> p = ''==''))"
    unfolding spec_well_formed_base64_def Let_def p_def ..
  have d: "decodable_base64 s =
      ((p = [] \<and> length b mod 4 \<noteq> 1) \<or> ((p = ''='' \<or> p = ''=='') \<and> length s mod 4 = 0))"
    unfolding decodable_base64_def Let_def b_def p_def ..
  show ?thesis
  proof (cases "p = []")
    case True
    with s have "length b = length s" by simp
    with True show ?thesis unfolding a w d by simp presburger
  next
    case False
    then show ?thesis unfolding a w d by auto
  qed
qed

text \<open>
  A data URI whose media type has a parameter, as the type the panel's recorder uses has:
  the pattern \<open>[^;]+\<close> stops at the first semicolon, the prefix stays, and the payload is
  turned away.
\<close>

lemma parameter_prefix_not_removed:
  "spec_strip_data_uri ''data:audio/webm;codecs=opus;base64,QUJD'' = ''QUJD''
   \<and> replace_data_prefix ''data:audio/webm;codecs=opus;base64,QUJD'' =
       ''data:audio/webm;codecs=opus;base64,QUJD''
   \<and> convertBase64ToAudioUrl ''data:audio/webm;codecs=opus;base64,QUJD'' = NullUrl"
  by code_simp

text \<open>
  C8, as stated: an audio message whose payload is well-formed base64 gets a playable
  handle, and one whose payload is not gets \<open>null\<close>. The empty payload is well-formed (it
  encodes no bytes), and both functions turn it away before decoding. The payload \<open>QUI\<close>
  lacks its padding, and the decoder takes it all the same.
\<close>

theorem C8_counterexample:
  "spec_well_formed_base64 (spec_strip_data_uri (rm_message (example_raw_message 2 [] True)))
   \<and> rm_isaudio (example_raw_message 2 [] True)
   \<and> m_audioUrl (mapMessageData (example_raw_message 2 [] True)) = NoUrl
   \<and> convertBase64ToAudioUrl (rm_message (example_raw_message 2 [] True)) = NullUrl
   \<and> \<not> spec_well_formed_base64 (spec_strip_data_uri (rm_message (example_raw_message 2 ''QUI'' True)))
   \<and> m_audioUrl (mapMessageData (example_raw_message 2 ''QUI'' True)) = BlobUrl ''audio/mp4'' ''AB''"
  by code_simp

text \<open>
  C8, amended: neither function has a failing branch (every exception is caught inside
  \<open>convertBase64ToAudioUrl\<close>). For a message flagged as audio with a non-empty payload the
  handle is the result of \<open>convertBase64ToAudioUrl\<close>. When the payload has no data-URI
  prefix, or the prefix \<open>data:<type>;base64,\<close> with a type free of semicolons and commas,
  and what follows the prefix is well-formed base64, the handle is a blob URL of the
  decoded bytes. For such payloads the handle is \<open>null\<close> exactly when what follows the
  prefix is not decodable: it has a character outside the alphabet other than one or two
  closing \<open>=\<close>, or it is padded and its length is not a multiple of four, or it is
  unpadded and its length is one modulo four. The payloads that are decoded without
  being well-formed are the unpadded ones of alphabet characters with a length of two or
  three modulo four. For an empty payload no handle is produced: \<open>mapMessageData\<close> leaves
  the field unset and \<open>convertBase64ToAudioUrl\<close> returns \<open>null\<close>.
\<close>

theorem C8_audio_handle:
  "(rm_isaudio msg \<and> rm_message msg \<noteq> [] \<longrightarrow>
      m_audioUrl (mapMessageData msg) = convertBase64ToAudioUrl (rm_message msg))
   \<and> (rm_message msg = [] \<longrightarrow> m_audioUrl (mapMessageData msg) = NoUrl)
   \<and> convertBase64ToAudioUrl [] = NullUrl
   \<and> (p \<noteq> []
        \<and> (\<not> startsWith p ''data:''
           \<or> (p = ''data:'' @ m @ '';base64,'' @ d \<and> m \<noteq> [] \<and> CHR '';'' \<notin> set m \<and> CHR '','' \<notin> set m)) \<longrightarrow>
        (spec_well_formed_base64 (spec_strip_data_uri p) \<longrightarrow>
           (\<exists>mime bytes. convertBase64ToAudioUrl p = BlobUrl mime bytes
              \<and> atob (spec_strip_data_uri p) = Some bytes))
        \<and> (convertBase64ToAudioUrl p = NullUrl) = (\<not> decodable_base64 (spec_strip_data_uri p)))
   \<and> (decodable_base64 s \<and> \<not> spec_well_formed_base64 s) =
       (list_all is_base64_char s \<and> (length s mod 4 = 2 \<or> length s mod 4 = 3))"
proof -
  have audio: "rm_isaudio msg \<and> rm_message msg \<noteq> [] \<longrightarrow>
      m_audioUrl (mapMessageData msg) = convertBase64ToAudioUrl (rm_message msg)"
    by (simp add: mapMessageData_def Let_def)
  have empty: "rm_message msg = [] \<longrightarrow> m_audioUrl (mapMessageData msg) = NoUrl"
    by (simp add: mapMessageData_def Let_def)
  have null: "convertBase64ToAudioUrl [] = NullUrl"
    by (simp add: convertBase64ToAudioUrl_def)
  have payload: "p \<noteq> []
        \<and> (\<not> startsWith p ''data:''
           \<or> (p = ''data:'' @ m @ '';base64,'' @ d \<and> m \<noteq> [] \<and> CHR '';'' \<notin> set m \<and> CHR '','' \<notin> set m)) \<longrightarrow>
        (spec_well_formed_base64 (spec_strip_data_uri p) \<longrightarrow>
           (\<exists>mime bytes. convertBase64ToAudioUrl p = BlobUrl mime bytes
              \<and> atob (spec_strip_data_uri p) = Some bytes))
        \<and> (convertBase64ToAudioUrl p = NullUrl) = (\<not> decodable_base64 (spec_strip_data_uri p))"
  proof (intro impI)
    assume h: "p \<noteq> []
        \<and> (\<not> startsWith p ''data:''
           \<or> (p = ''data:'' @ m @ '';base64,'' @ d \<and> m \<noteq> [] \<and> CHR '';'' \<notin> set m \<and> CHR '','' \<notin> set m))"
    then have same: "replace_data_prefix p = spec_strip_data_uri p"
      using no_prefix [of p] plain_prefix [of p m d] by auto
    from h have ne: "p \<noteq> []" by (rule conjunct1)
    have one: "spec_well_formed_base64 (spec_strip_data_uri p) \<longrightarrow>
           (\<exists>mime bytes. convertBase64ToAudioUrl p = BlobUrl mime bytes
              \<and> atob (spec_strip_data_uri p) = Some bytes)"
    proof
      assume "spec_well_formed_base64 (spec_strip_data_uri p)"
      then have "decodable_base64 (replace_data_prefix p)"
        unfolding same by (rule well_formed_decodable)
      with ne have "\<exists>mime bytes. convertBase64ToAudioUrl p = BlobUrl mime bytes
         \<and> atob (replace_data_prefix p) = Some bytes"
        by (rule convertBase64ToAudioUrl_handle)
      then show "\<exists>mime bytes. convertBase64ToAudioUrl p = BlobUrl mime bytes
              \<and> atob (spec_strip_data_uri p) = Some bytes"
        unfolding same .
    qed
    have two: "(convertBase64ToAudioUrl p = NullUrl) = (\<not> decodable_base64 (spec_strip_data_uri p))"
      using convertBase64ToAudioUrl_null [OF ne] unfolding same .
    from one two show "(spec_well_formed_base64 (spec_strip_data_uri p) \<longrightarrow>
           (\<exists>mime bytes. convertBase64ToAudioUrl p = BlobUrl mime bytes
              \<and> atob (spec_strip_data_uri p) = Some bytes))
        \<and> (convertBase64ToAudioUrl p = NullUrl) = (\<not> decodable_base64 (spec_strip_data_uri p))"
      by (rule conjI)
  qed
  note lenient = lenient_only [of s]
  show ?thesis
    by (intro conjI) (rule audio empty null payload lenient)+
qed

theorem C8_witness:
  "rm_isaudio (example_raw_message 2 ''not base64!'' True)
   \<and> rm_message (example_raw_message 2 ''not base64!'' True) \<noteq> []
   \<and> \<not> startsWith ''not base64!'' ''data:''
   \<and> \<not> decodable_base64 (spec_strip_data_uri ''not base64!'')
   \<and> m_audioUrl (mapMessageData (example_raw_message 2 ''not base64!'' True)) = NullUrl
   \<and> rm_isaudio (example_raw_message 2 ''data:audio/x;base64,T2dnUwAA'' True)
   \<and> ''data:audio/x;base64,T2dnUwAA'' = ''data:'' @ ''audio/x'' @ '';base64,'' @ ''T2dnUwAA''
   \<and> spec_well_formed_base64 (spec_strip_data_uri ''data:audio/x;base64,T2dnUwAA'')
   \<and> atob (spec_strip_data_uri ''data:audio/x;base64,T2dnUwAA'') = Some (''OggS'' @ [CHR 0x00, CHR 0x00])
   \<and> (\<exists>mime. m_audioUrl (mapMessageData (example_raw_message 2 ''data:audio/x;base64,T2dnUwAA'' True)) =
         BlobUrl mime (''OggS'' @ [CHR 0x00, CHR 0x00]))
   \<and> m_audioUrl (mapMessageData (example_raw_message 2 ''data:audio/x;base64,T2dnUwAA'' True)) =
       BlobUrl ''audio/ogg'' (''OggS'' @ [CHR 0x00, CHR 0x00])"
proof -
  let ?bad = "example_raw_message 2 ''not base64!'' True"
  let ?p = "''data:audio/x;base64,T2dnUwAA''"
  let ?good = "example_raw_message 2 ?p True"
  have a: "rm_isaudio ?bad \<and> rm_message ?bad \<noteq> []" "rm_message ?bad = ''not base64!''"
    by (simp_all add: example_raw_message_def)
  have b: "\<not> startsWith ''not base64!'' ''data:''" "\<not> decodable_base64 (spec_strip_data_uri ''not base64!'')"
    by code_simp+
  have c: "rm_isaudio ?good \<and> rm_message ?good \<noteq> []"
    "rm_message ?good = ?p"
    by (simp_all add: example_raw_message_def)
  have d: "spec_well_formed_base64 (spec_strip_data_uri ?p)"
    by code_simp
  have e: "convertBase64ToAudioUrl ?p = BlobUrl ''audio/ogg'' (''OggS'' @ [CHR 0x00, CHR 0x00])"
    by code_simp
  have f: "?p = ''data:'' @ ''audio/x'' @ '';base64,'' @ ''T2dnUwAA''"
    by simp
  have g: "''audio/x'' \<noteq> [] \<and> CHR '';'' \<notin> set ''audio/x'' \<and> CHR '','' \<notin> set ''audio/x''" "?p \<noteq> []"
    by simp_all
  have k: "atob (spec_strip_data_uri ?p) = Some (''OggS'' @ [CHR 0x00, CHR 0x00])"
    by code_simp
  from C8_audio_handle [of ?bad "''not base64!''"] a b
  have bad: "m_audioUrl (mapMessageData ?bad) = NullUrl"
    by simp
  note t = C8_audio_handle [of ?good ?p "''audio/x''" "''T2dnUwAA''"]
  from t c have h: "m_audioUrl (mapMessageData ?good) = convertBase64ToAudioUrl ?p"
    by simp
  from t g d have "\<exists>mime bytes. convertBase64ToAudioUrl ?p = BlobUrl mime bytes
      \<and> atob (spec_strip_data_uri ?p) = Some bytes"
    by simp
  with k have "\<exists>mime. convertBase64ToAudioUrl ?p = BlobUrl mime (''OggS'' @ [CHR 0x00, CHR 0x00])"
    by auto
  with h have ex: "\<exists>mime. m_audioUrl (mapMessageData ?good) = BlobUrl mime (''OggS'' @ [CHR 0x00, CHR 0x00])"
    by simp
  from h e have good: "m_audioUrl (mapMessageData ?good) = BlobUrl ''audio/ogg'' (''OggS'' @ [CHR 0x00, CHR 0x00])"
    by simp
  from a(1) have a1: "rm_isaudio ?bad" and a2: "rm_message ?bad \<noteq> []" by simp_all
  from c(1) have c1: "rm_isaudio ?good" by simp
  show ?thesis
    by (intro conjI) (rule a1 a2 b bad c1 f d k ex good)+
qed

section \<open>Reconnection\<close>

lemma scheduled_append: "scheduled (fx @ gx) = scheduled fx @ scheduled gx"
  by (induction fx rule: scheduled.induct) simp_all

lemma reported_append: "reported (fx @ gx) = reported fx @ reported gx"
  by (induction fx rule: reported.induct) simp_all

lemma run_Cons:
  "fst (run s (e # es)) = fst (run (fst (socket_step s e)) es)"
  "snd (run s (e # es)) = snd (socket_step s e) @ snd (run (fst (socket_step s e)) es)"
  by (simp_all add: Let_def split: prod.splits)

lemma run_invariant:
  "retryCount s \<le> maxRetries s \<Longrightarrow>
     retryCount (fst (run s es)) \<le> maxRetries s \<and> maxRetries (fst (run s es)) = maxRetries s"
proof (induction es arbitrary: s)
  case Nil
  then show ?case by simp
next
  case (Cons e es)
  have "retryCount (fst (socket_step s e)) \<le> maxRetries (fst (socket_step s e))
      \<and> maxRetries (fst (socket_step s e)) = maxRetries s"
    using Cons.prems
    by (cases e) (auto simp: handleReconnection_def init_def Let_def split: option.splits)
  with Cons.IH [of "fst (socket_step s e)"] show ?case
    by (simp only: run_Cons) simp
qed

lemma step_disconnect_below:
  "retryCount s < maxRetries s \<Longrightarrow>
     socket_step s Disconnect =
       (s\<lparr>retryCount := retryCount s + 1\<rparr>, [CallOnDisconnect, ScheduleInit CONNECTION_RETRY_DELAY])"
  by (simp add: handleReconnection_def)

lemma step_disconnect_at_ceiling:
  "\<not> retryCount s < maxRetries s \<Longrightarrow>
     socket_step s Disconnect =
       (s, [CallOnDisconnect, CallOnError ''Max reconnection attempts reached''])"
  by (simp add: handleReconnection_def)

lemma run_without_connect:
  assumes "set es \<subseteq> {Disconnect, TimerFires None}" "retryCount s \<le> maxRetries s"
  shows "retryCount (fst (run s es)) = min (maxRetries s) (retryCount s + count_list es Disconnect)
     \<and> scheduled (snd (run s es)) =
         replicate (min (maxRetries s - retryCount s) (count_list es Disconnect)) CONNECTION_RETRY_DELAY
     \<and> reported (snd (run s es)) =
         replicate (count_list es Disconnect - (maxRetries s - retryCount s))
           ''Max reconnection attempts reached''"
  using assms
proof (induction es arbitrary: s)
  case Nil
  then show ?case by simp
next
  case (Cons e es)
  from Cons.prems(1) have es: "set es \<subseteq> {Disconnect, TimerFires None}"
    and e: "e = Disconnect \<or> e = TimerFires None" by auto
  from e show ?case
  proof
    assume d: "e = Disconnect"
    show ?thesis
    proof (cases "retryCount s < maxRetries s")
      case True
      let ?s1 = "s\<lparr>retryCount := retryCount s + 1\<rparr>"
      have s1: "retryCount ?s1 \<le> maxRetries ?s1" using True by simp
      have m: "min (maxRetries s - retryCount s) (Suc (count_list es Disconnect)) =
          Suc (min (maxRetries s - Suc (retryCount s)) (count_list es Disconnect))"
        using True by arith
      from Cons.IH [OF es s1] True show ?thesis
        unfolding d run_Cons step_disconnect_below [OF True]
        by (simp add: m)
    next
      case False
      with Cons.prems(2) have eq: "retryCount s = maxRetries s" by simp
      from Cons.IH [OF es Cons.prems(2)] eq show ?thesis
        unfolding d run_Cons step_disconnect_at_ceiling [OF False]
        by simp
    qed
  next
    assume t: "e = TimerFires None"
    let ?s1 = "s\<lparr>socket := True\<rparr>"
    have s1: "retryCount ?s1 \<le> maxRetries ?s1" using Cons.prems(2) by simp
    from Cons.IH [OF es s1] show ?thesis
      unfolding t run_Cons by (simp add: init_def)
  qed
qed

text \<open>
  C3. In every state the service reaches from its constructor the ceiling is 5 and the
  retry counter is at most 5. A disconnect below the ceiling calls \<open>onDisconnect\<close>, adds
  one to the counter and schedules exactly one \<open>init\<close> after \<open>CONNECTION_RETRY_DELAY\<close>; a
  connect sets the counter to zero; a disconnect at the ceiling calls \<open>onDisconnect\<close> and
  \<open>onError\<close> and schedules nothing. Hence, from a counter of zero, a run of disconnects and
  timer firings with no connect among them schedules one attempt for each of the first
  five disconnects and reports the terminal error for the sixth and every later one.
\<close>

theorem C3_reconnection:
  "maxRetries (fst (run socket_constructor es)) = 5
   \<and> retryCount (fst (run socket_constructor es)) \<le> 5
   \<and> (retryCount (fst (run socket_constructor es)) < 5 \<longrightarrow>
        socket_step (fst (run socket_constructor es)) Disconnect =
          ((fst (run socket_constructor es))
             \<lparr>retryCount := retryCount (fst (run socket_constructor es)) + 1\<rparr>,
           [CallOnDisconnect, ScheduleInit CONNECTION_RETRY_DELAY]))
   \<and> (retryCount (fst (run socket_constructor es)) = 5 \<longrightarrow>
        socket_step (fst (run socket_constructor es)) Disconnect =
          (fst (run socket_constructor es),
           [CallOnDisconnect, CallOnError ''Max reconnection attempts reached'']))
   \<and> retryCount (fst (socket_step s Connect)) = 0
   \<and> (retryCount s0 = 0 \<and> maxRetries s0 = 5 \<and> set ds \<subseteq> {Disconnect, TimerFires None} \<longrightarrow>
        retryCount (fst (run s0 ds)) = min 5 (count_list ds Disconnect)
        \<and> scheduled (snd (run s0 ds)) = replicate (min 5 (count_list ds Disconnect)) CONNECTION_RETRY_DELAY
        \<and> reported (snd (run s0 ds)) =
            replicate (count_list ds Disconnect - 5) ''Max reconnection attempts reached'')"
proof -
  let ?s = "fst (run socket_constructor es)"
  have inv: "retryCount ?s \<le> 5 \<and> maxRetries ?s = 5"
    using run_invariant [of socket_constructor es] by (simp add: socket_constructor_def)
  have below: "retryCount ?s < 5 \<longrightarrow>
        socket_step ?s Disconnect =
          (?s\<lparr>retryCount := retryCount ?s + 1\<rparr>, [CallOnDisconnect, ScheduleInit CONNECTION_RETRY_DELAY])"
    using inv step_disconnect_below [of ?s] by simp
  have ceiling: "retryCount ?s = 5 \<longrightarrow>
        socket_step ?s Disconnect = (?s, [CallOnDisconnect, CallOnError ''Max reconnection attempts reached''])"
    using inv step_disconnect_at_ceiling [of ?s] by simp
  have reset: "retryCount (fst (socket_step s Connect)) = 0" by simp
  have runs: "retryCount s0 = 0 \<and> maxRetries s0 = 5 \<and> set ds \<subseteq> {Disconnect, TimerFires None} \<longrightarrow>
        retryCount (fst (run s0 ds)) = min 5 (count_list ds Disconnect)
        \<and> scheduled (snd (run s0 ds)) = replicate (min 5 (count_list ds Disconnect)) CONNECTION_RETRY_DELAY
        \<and> reported (snd (run s0 ds)) =
            replicate (count_list ds Disconnect - 5) ''Max reconnection attempts reached''"
    using run_without_connect [of ds s0] by auto
  from inv below ceiling reset runs show ?thesis by blast
qed

theorem C3_witness:
  "retryCount (fst (run socket_constructor
       [Disconnect, TimerFires None, Disconnect, TimerFires None, Disconnect, Disconnect, Disconnect])) = 5
   \<and> socket_step (fst (run socket_constructor
       [Disconnect, TimerFires None, Disconnect, TimerFires None, Disconnect, Disconnect, Disconnect]))
       Disconnect =
       (\<lparr>retryCount = 5, maxRetries = 5, socket = True\<rparr>,
        [CallOnDisconnect, CallOnError ''Max reconnection attempts reached''])
   \<and> retryCount socket_constructor = 0 \<and> maxRetries socket_constructor = 5
   \<and> scheduled (snd (run socket_constructor
       [Disconnect, TimerFires None, Disconnect, TimerFires None, Disconnect, Disconnect, Disconnect,
        Disconnect])) = [5000, 5000, 5000, 5000, 5000]
   \<and> reported (snd (run socket_constructor
       [Disconnect, TimerFires None, Disconnect, TimerFires None, Disconnect, Disconnect, Disconnect,
        Disconnect])) = [''Max reconnection attempts reached'']"
proof -
  let ?five = "[Disconnect, TimerFires None, Disconnect, TimerFires None, Disconnect, Disconnect, Disconnect]"
  let ?six = "?five @ [Disconnect]"
  have s: "fst (run socket_constructor ?five) = \<lparr>retryCount = 5, maxRetries = 5, socket = True\<rparr>"
    by (simp add: socket_constructor_def handleReconnection_def init_def)
  have c: "retryCount socket_constructor = 0 \<and> maxRetries socket_constructor = 5"
    by (simp add: socket_constructor_def)
  have d: "set ?six \<subseteq> {Disconnect, TimerFires None}" "count_list ?six Disconnect = 6"
    by simp_all
  from C3_reconnection [of ?five socket_constructor socket_constructor ?six] s c d
  show ?thesis by (simp add: CONNECTION_RETRY_DELAY_def)
qed

section \<open>Sending\<close>

lemma showToast_effects:
  "dispatched (snd (showToast u msg)) = []" "network_calls st (snd (showToast u msg)) = []"
  by (simp_all add: showToast_def split: option.splits)

lemma showToast_keeps:
  "messageInput (fst (showToast u msg)) = messageInput u"
  "stateManager (fst (showToast u msg)) = stateManager u"
  "threadArea (fst (showToast u msg)) = threadArea u"
  by (simp_all add: showToast_def split: option.splits)

lemma handleSendMessage_rejected:
  assumes "messageInput u = Some v" "trim v \<noteq> []" "\<not> isManualMode (state (stateManager u))"
  shows "handleSendMessage u = Inr (showToast u ACTIVATE_CONTROL)"
  using assms by (simp add: handleSendMessage_def getState_def)

lemma trim_unicode_space: "trim [0xA0, 0x2003, 0x20, 0xFEFF] = []"
  by (simp add: trim_def is_trim_space_def)

text \<open>
  C4, as stated: for every non-empty text in the input, a send while the manual-mode flag
  is false shows the toast. A text of one space is not empty; it is trimmed to nothing
  and the method returns before the flag is looked at, with no toast.
\<close>

theorem C4_counterexample:
  "messageInput (example_ui '' '' False []) = Some (units '' '') \<and> units '' '' \<noteq> []
   \<and> \<not> isManualMode (state (stateManager (example_ui '' '' False [])))
   \<and> handleSendMessage (example_ui '' '' False []) = Inr (example_ui '' '' False [], [])
   \<and> toast (example_ui '' '' False []) = Some \<lparr>textContent = [], display = ''none'', animation = []\<rparr>"
  by (simp add: example_ui_def example_state_def handleSendMessage_def trim_def is_trim_space_def
      units_def)

text \<open>
  C4, amended: for every text in the message input that is not empty after \<open>trim\<close> has
  removed the white space and line terminators at its ends, a
  send while the manual-mode flag of the store is false dispatches no event, so that no
  intervention is posted, leaves the message input, the store and the thread area as
  they were, and, when the page has the toast element, sets its text to
  \<open>Activate "Take control" to intervene.\<close>, displays it and schedules its hiding; without
  the toast element nothing changes at all. A text that is empty after trimming is
  dropped with no effect.
\<close>

theorem C4_send_rejected_without_control:
  "(messageInput u = Some v \<and> trim v \<noteq> [] \<and> \<not> isManualMode (state (stateManager u)) \<longrightarrow>
      (\<exists>u' fx. handleSendMessage u = Inr (u', fx)
         \<and> dispatched fx = [] \<and> network_calls (stateManager u) fx = []
         \<and> messageInput u' = messageInput u \<and> stateManager u' = stateManager u
         \<and> threadArea u' = threadArea u
         \<and> (\<forall>t. toast u = Some t \<longrightarrow>
               toast u' = Some (t\<lparr>textContent := ACTIVATE_CONTROL, display := ''block'',
                                  animation := ''slideInRight 0.3s ease''\<rparr>)
               \<and> fx = [ScheduleToastHide TOAST_DURATION])
         \<and> (toast u = None \<longrightarrow> u' = u \<and> fx = [])))
   \<and> (messageInput u = Some v \<and> trim v = [] \<longrightarrow> handleSendMessage u = Inr (u, []))"
proof (intro conjI impI)
  assume a: "messageInput u = Some v \<and> trim v \<noteq> [] \<and> \<not> isManualMode (state (stateManager u))"
  then have r: "handleSendMessage u = Inr (fst (showToast u ACTIVATE_CONTROL), snd (showToast u ACTIVATE_CONTROL))"
    by (simp add: handleSendMessage_rejected)
  have t: "\<forall>t. toast u = Some t \<longrightarrow>
      toast (fst (showToast u ACTIVATE_CONTROL)) =
        Some (t\<lparr>textContent := ACTIVATE_CONTROL, display := ''block'', animation := ''slideInRight 0.3s ease''\<rparr>)
      \<and> snd (showToast u ACTIVATE_CONTROL) = [ScheduleToastHide TOAST_DURATION]"
    by (simp add: showToast_def)
  have n: "toast u = None \<longrightarrow> fst (showToast u ACTIVATE_CONTROL) = u \<and> snd (showToast u ACTIVATE_CONTROL) = []"
    by (simp add: showToast_def)
  note facts = r t n showToast_effects(1) [of u ACTIVATE_CONTROL]
    showToast_effects(2) [of "stateManager u" u ACTIVATE_CONTROL] showToast_keeps [of u ACTIVATE_CONTROL]
  show "\<exists>u' fx. handleSendMessage u = Inr (u', fx)
         \<and> dispatched fx = [] \<and> network_calls (stateManager u) fx = []
         \<and> messageInput u' = messageInput u \<and> stateManager u' = stateManager u
         \<and> threadArea u' = threadArea u
         \<and> (\<forall>t. toast u = Some t \<longrightarrow>
               toast u' = Some (t\<lparr>textContent := ACTIVATE_CONTROL, display := ''block'',
                                  animation := ''slideInRight 0.3s ease''\<rparr>)
               \<and> fx = [ScheduleToastHide TOAST_DURATION])
         \<and> (toast u = None \<longrightarrow> u' = u \<and> fx = [])"
    by (rule exI [of _ "fst (showToast u ACTIVATE_CONTROL)"],
        rule exI [of _ "snd (showToast u ACTIVATE_CONTROL)"]) (use facts in simp)
next
  assume "messageInput u = Some v \<and> trim v = []"
  then show "handleSendMessage u = Inr (u, [])"
    by (simp add: handleSendMessage_def)
qed

theorem C4_witness:
  "messageInput (example_ui '' hola '' False []) = Some (units '' hola '')
   \<and> trim (units '' hola '') \<noteq> []
   \<and> \<not> isManualMode (state (stateManager (example_ui '' hola '' False [])))
   \<and> handleSendMessage (example_ui '' hola '' False []) =
       Inr ((example_ui '' hola '' False [])
              \<lparr>toast := Some \<lparr>textContent = ACTIVATE_CONTROL, display = ''block'',
                               animation = ''slideInRight 0.3s ease''\<rparr>\<rparr>,
            [ScheduleToastHide 1600])"
proof -
  let ?u = "example_ui '' hola '' False []"
  have a: "messageInput ?u = Some (units '' hola '')" "\<not> isManualMode (state (stateManager ?u))"
    by (simp_all add: example_ui_def example_state_def)
  have b: "trim (units '' hola '') \<noteq> []"
    by (simp add: trim_def is_trim_space_def units_def)
  have t: "toast ?u = Some \<lparr>textContent = [], display = ''none'', animation = []\<rparr>"
    by (simp add: example_ui_def)
  from C4_send_rejected_without_control [of ?u "units '' hola ''"] a b
  obtain u' fx where r: "handleSendMessage ?u = Inr (u', fx)"
    "messageInput u' = messageInput ?u" "stateManager u' = stateManager ?u" "threadArea u' = threadArea ?u"
    "\<forall>t. toast ?u = Some t \<longrightarrow>
               toast u' = Some (t\<lparr>textContent := ACTIVATE_CONTROL, display := ''block'',
                                  animation := ''slideInRight 0.3s ease''\<rparr>)
               \<and> fx = [ScheduleToastHide TOAST_DURATION]"
    by blast
  from r(5) t have "toast u' = Some \<lparr>textContent = ACTIVATE_CONTROL, display = ''block'',
      animation = ''slideInRight 0.3s ease''\<rparr>" "fx = [ScheduleToastHide 1600]"
    by (simp_all add: TOAST_DURATION_def)
  with r(1-4) have "handleSendMessage ?u = Inr (?u\<lparr>toast := Some \<lparr>textContent = ACTIVATE_CONTROL,
      display = ''block'', animation = ''slideInRight 0.3s ease''\<rparr>\<rparr>, [ScheduleToastHide 1600])"
    by (cases u') (simp add: example_ui_def)
  with a b show ?thesis by simp
qed

section \<open>Thread order\<close>

lemma insert_by_insort_key:
  "insert_by (\<lambda>a b. f a - f b) x ys = insort_key f x ys" for f :: "'a \<Rightarrow> int"
  by (induction ys) simp_all

lemma array_sort_sort_key:
  "array_sort (\<lambda>a b. f a - f b) xs = sort_key f xs" for f :: "'a \<Rightarrow> int"
  by (induction xs) (simp_all add: array_sort_def sort_key_def insert_by_insort_key)

lemma window_take_drop:
  assumes "b \<le> length xs"
  shows "map (\<lambda>i. xs ! i) [a ..< b] = take (b - a) (drop a xs)"
proof (rule nth_equalityI)
  show "length (map (\<lambda>i. xs ! i) [a ..< b]) = length (take (b - a) (drop a xs))"
    using assms by simp
next
  fix i
  assume "i < length (map (\<lambda>i. xs ! i) [a ..< b])"
  then show "map (\<lambda>i. xs ! i) [a ..< b] ! i = take (b - a) (drop a xs) ! i"
    using assms by simp
qed

lemma updateVirtualScrollView_window:
  "updateVirtualScrollView area ms =
     take (min (scrollTop area div 60 + (clientHeight area + 59) div 60 + 5) (length ms)
             - (scrollTop area div 60 - 5))
       (drop (scrollTop area div 60 - 5) ms)"
  by (simp add: updateVirtualScrollView_def Let_def itemHeight_def window_take_drop add.commute)

lemma sorted_take_drop:
  "sorted (map f xs) \<Longrightarrow> sorted (map f (take n (drop k xs)))"
  by (simp add: take_map [symmetric] drop_map [symmetric] sorted_wrt_take sorted_wrt_drop)

lemma renderConversationThread_shown:
  assumes "threadArea u = Some area" "getActiveConversation (stateManager u) = Some c"
    "c_messages c \<noteq> []"
  shows "renderConversationThread u =
     Thread (if 100 < length (c_messages c)
             then take (min (scrollTop area div 60 + (clientHeight area + 59) div 60 + 5)
                          (length (c_messages c)) - (scrollTop area div 60 - 5))
                    (drop (scrollTop area div 60 - 5) (sort_key m_id (c_messages c)))
             else sort_key m_id (c_messages c))"
    and "renderConversationThread_v1 u = Thread (sort_key m_id (c_messages c))"
  using assms
  by (simp_all add: renderConversationThread_def renderConversationThread_v1_def Let_def
      array_sort_sort_key updateVirtualScrollView_window)

lemma long_thread_length: "length long_thread = 101"
  by (simp add: long_thread_def)

lemma long_thread_rendered:
  "renderConversationThread
     (example_ui [] False [(example_conversation ''c1'' ''Ana'' ''1'')\<lparr>c_messages := long_thread\<rparr>]) =
   Thread (take 15 (sort_key m_id long_thread))"
proof -
  let ?c = "(example_conversation ''c1'' ''Ana'' ''1'')\<lparr>c_messages := long_thread\<rparr>"
  let ?u = "example_ui [] False [?c]"
  have a: "threadArea ?u = Some \<lparr>scrollTop = 0, clientHeight = 600\<rparr>"
    by (simp add: example_ui_def)
  have b: "getActiveConversation (stateManager ?u) = Some ?c"
    by (simp add: example_ui_def getActiveConversation_def example_state_def example_conversation_def)
  have n: "c_messages ?c \<noteq> []" using long_thread_length by auto
  from renderConversationThread_shown(1) [OF a b n] long_thread_length show ?thesis by simp
qed

text \<open>
  C6, as stated: rendering the thread displays the messages of the active conversation,
  in ascending order of id. Of a thread of 101 messages, with the thread area scrolled to
  the top and 600 pixels high, 15 are displayed.
\<close>

theorem C6_counterexample:
  "length (c_messages ((example_conversation ''c1'' ''Ana'' ''1'')\<lparr>c_messages := long_thread\<rparr>)) = 101
   \<and> length (shown (renderConversationThread
        (example_ui [] False [(example_conversation ''c1'' ''Ana'' ''1'')\<lparr>c_messages := long_thread\<rparr>]))) = 15"
  by (simp add: long_thread_rendered shown_def long_thread_length)


lemma long_thread_sorted: "map m_id (take 15 (sort_key m_id long_thread)) = map int [1 ..< 16]"
  by code_simp

text \<open>
  C6, amended: when the thread area exists, a conversation is active and it has messages,
  the message elements the thread shows are in ascending order of message id, whatever
  the order of the stored array. A thread of at most 100 messages is shown whole, as the
  stable sort by id of the stored sequence. Of a longer thread only a window of that
  sorted sequence is shown: the positions from \<open>max(0, floor(scrollTop / 60) - 5)\<close> up to,
  not including, \<open>min(floor(scrollTop / 60) + ceil(clientHeight / 60) + 5, length)\<close>. The
  earlier variant of the method shows the whole sorted sequence for any length.
\<close>

theorem C6_thread_sorted_by_id:
  "threadArea u = Some area \<and> getActiveConversation (stateManager u) = Some c \<and> c_messages c \<noteq> [] \<longrightarrow>
     sorted (map m_id (shown (renderConversationThread u)))
     \<and> (length (c_messages c) \<le> 100 \<longrightarrow>
          renderConversationThread u = Thread (sort_key m_id (c_messages c))
          \<and> mset (shown (renderConversationThread u)) = mset (c_messages c))
     \<and> (100 < length (c_messages c) \<longrightarrow>
          renderConversationThread u =
            Thread (take (min (scrollTop area div 60 + (clientHeight area + 59) div 60 + 5)
                            (length (c_messages c)) - (scrollTop area div 60 - 5))
                      (drop (scrollTop area div 60 - 5) (sort_key m_id (c_messages c)))))
     \<and> renderConversationThread_v1 u = Thread (sort_key m_id (c_messages c))
     \<and> sorted (map m_id (sort_key m_id (c_messages c)))
     \<and> mset (sort_key m_id (c_messages c)) = mset (c_messages c)"
proof (intro impI)
  assume a: "threadArea u = Some area \<and> getActiveConversation (stateManager u) = Some c \<and> c_messages c \<noteq> []"
  let ?sorted = "sort_key m_id (c_messages c)"
  let ?window = "take (min (scrollTop area div 60 + (clientHeight area + 59) div 60 + 5)
                            (length (c_messages c)) - (scrollTop area div 60 - 5))
                      (drop (scrollTop area div 60 - 5) ?sorted)"
  from a have r: "renderConversationThread u = Thread (if 100 < length (c_messages c) then ?window else ?sorted)"
    and r1: "renderConversationThread_v1 u = Thread ?sorted"
    by (simp_all add: renderConversationThread_shown)
  have s: "sorted (map m_id ?sorted)" by (rule sorted_sort_key)
  then have w: "sorted (map m_id ?window)" by (rule sorted_take_drop)
  have m: "mset ?sorted = mset (c_messages c)" by simp
  have order: "sorted (map m_id (shown (renderConversationThread u)))"
    using r s w by (simp add: shown_def)
  have short: "length (c_messages c) \<le> 100 \<longrightarrow>
          renderConversationThread u = Thread ?sorted
          \<and> mset (shown (renderConversationThread u)) = mset (c_messages c)"
    using r by (simp add: shown_def)
  have long: "100 < length (c_messages c) \<longrightarrow> renderConversationThread u = Thread ?window"
    using r by simp
  show "sorted (map m_id (shown (renderConversationThread u)))
     \<and> (length (c_messages c) \<le> 100 \<longrightarrow>
          renderConversationThread u = Thread (sort_key m_id (c_messages c))
          \<and> mset (shown (renderConversationThread u)) = mset (c_messages c))
     \<and> (100 < length (c_messages c) \<longrightarrow>
          renderConversationThread u =
            Thread (take (min (scrollTop area div 60 + (clientHeight area + 59) div 60 + 5)
                            (length (c_messages c)) - (scrollTop area div 60 - 5))
                      (drop (scrollTop area div 60 - 5) (sort_key m_id (c_messages c)))))
     \<and> renderConversationThread_v1 u = Thread (sort_key m_id (c_messages c))
     \<and> sorted (map m_id (sort_key m_id (c_messages c)))
     \<and> mset (sort_key m_id (c_messages c)) = mset (c_messages c)"
    by (intro conjI) (rule order short long r1 s m)+
qed

theorem C6_witness:
  "threadArea (example_ui [] False [(example_conversation ''c1'' ''Ana'' ''1'')
       \<lparr>c_messages := [example_message 5 ''e'', example_message 1 ''a'', example_message 3 ''c'']\<rparr>])
     = Some \<lparr>scrollTop = 0, clientHeight = 600\<rparr>
   \<and> getActiveConversation (stateManager (example_ui [] False [(example_conversation ''c1'' ''Ana'' ''1'')
       \<lparr>c_messages := [example_message 5 ''e'', example_message 1 ''a'', example_message 3 ''c'']\<rparr>]))
     = Some ((example_conversation ''c1'' ''Ana'' ''1'')
       \<lparr>c_messages := [example_message 5 ''e'', example_message 1 ''a'', example_message 3 ''c'']\<rparr>)
   \<and> renderConversationThread (example_ui [] False [(example_conversation ''c1'' ''Ana'' ''1'')
       \<lparr>c_messages := [example_message 5 ''e'', example_message 1 ''a'', example_message 3 ''c'']\<rparr>])
     = Thread [example_message 1 ''a'', example_message 3 ''c'', example_message 5 ''e'']
   \<and> getActiveConversation (stateManager (example_ui [] False
         [(example_conversation ''c1'' ''Ana'' ''1'')\<lparr>c_messages := long_thread\<rparr>]))
     = Some ((example_conversation ''c1'' ''Ana'' ''1'')\<lparr>c_messages := long_thread\<rparr>)
   \<and> 100 < length long_thread
   \<and> renderConversationThread (example_ui [] False
         [(example_conversation ''c1'' ''Ana'' ''1'')\<lparr>c_messages := long_thread\<rparr>])
     = Thread (take 15 (sort_key m_id long_thread))
   \<and> map m_id (take 15 (sort_key m_id long_thread)) = map int [1 ..< 16]"
proof -
  let ?c = "(example_conversation ''c1'' ''Ana'' ''1'')
       \<lparr>c_messages := [example_message 5 ''e'', example_message 1 ''a'', example_message 3 ''c'']\<rparr>"
  let ?u = "example_ui [] False [?c]"
  let ?d = "(example_conversation ''c1'' ''Ana'' ''1'')\<lparr>c_messages := long_thread\<rparr>"
  let ?v = "example_ui [] False [?d]"
  let ?area = "\<lparr>scrollTop = 0, clientHeight = 600\<rparr>"
  have a: "threadArea ?u = Some ?area" "threadArea ?v = Some ?area"
    by (simp_all add: example_ui_def)
  have b: "getActiveConversation (stateManager ?u) = Some ?c"
    by (simp add: example_ui_def getActiveConversation_def example_state_def example_conversation_def)
  have b': "getActiveConversation (stateManager ?v) = Some ?d"
    by (simp add: example_ui_def getActiveConversation_def example_state_def example_conversation_def)
  have m: "c_messages ?c = [example_message 5 ''e'', example_message 1 ''a'', example_message 3 ''c'']"
    "c_messages ?d = long_thread"
    by simp_all
  have l: "length long_thread = 101" by (rule long_thread_length)
  then have n: "long_thread \<noteq> []" by auto
  have k: "sort_key m_id [example_message 5 ''e'', example_message 1 ''a'', example_message 3 ''c''] =
      [example_message 1 ''a'', example_message 3 ''c'', example_message 5 ''e'']"
    by (simp add: example_message_def)
  from C6_thread_sorted_by_id [of ?u ?area ?c] a(1) b m(1)
  have small: "renderConversationThread ?u = Thread (sort_key m_id (c_messages ?c))"
    by simp
  from C6_thread_sorted_by_id [of ?v ?area ?d] a(2) b' m(2) n l
  have large: "renderConversationThread ?v = Thread (take 15 (sort_key m_id long_thread))"
    by simp
  from small large a b b' m k l long_thread_sorted show ?thesis by simp
qed


end
